theory Spec2Isabelle
  imports Complex_Main "HOL-Library.Sublist" "HOL-Library.Multiset"
begin

section \<open>Jumping Dino: motion-to-input pipeline and round controller\<close>

text \<open>
  The repository holds three revisions of the React component \<open>App\<close>:
  \<^item> \<open>src/App.jsx\<close>: the jump detector alone (no statistics);
  \<^item> the second document of \<open>part_000\<close> (lines 601-1058): detector, session statistics,
    streak and a local top-5 leaderboard; its game-over handler has no active-round flag;
  \<^item> the first document of \<open>part_000\<close> (lines 1-600): the arcade revision with a player
    name, the \<open>START/PLAYING/GAME_OVER\<close> state machine, the \<open>isGameActiveRef\<close> guard and
    a Firebase-backed leaderboard.

  The three are embedded as functions on three records, each extending the previous one, so
  that code shared verbatim by two revisions (\<open>resetStats\<close>, the statistics and streak
  updaters) is written once. JavaScript numbers that hold counts, scores and millisecond
  timestamps are \<open>int\<close> (their arithmetic is exact in doubles). Shoulder coordinates,
  which the detector subtracts and compares with the literal \<open>0.04\<close>, are IEEE 754
  binary64 values with round-to-nearest-even arithmetic (type \<open>double\<close> below). Durations
  in seconds are idealised as \<open>real\<close>. \<open>Date.now()\<close> is an input of every
  function that reads the clock, one argument per call in the source. React state, refs and
  \<open>localStorage\<close> are fields of the state record; a state updater passed to a \<open>set...\<close>
  function is applied at once. Audio, canvas drawing and console output are left out.
\<close>

subsection \<open>Binary64 arithmetic\<close>

text \<open>
  A JavaScript number as the detector uses it. \<open>Dyadic m e\<close> is the finite value
  \<open>m * 2^e\<close>; a double is such a value with \<open>\<bar>m\<bar> < 2^53\<close>, \<open>-1074 \<le> e\<close> and magnitude
  below \<open>2^1024\<close>. The sign of zero is not kept: no operation used here can tell the two
  zeros apart.
\<close>

datatype double = Dyadic int int | PosInfinity | NegInfinity | NaN

text \<open>The number of binary digits of a natural number.\<close>

fun bitlength :: "nat \<Rightarrow> nat" where
  "bitlength n = (if n = 0 then 0 else Suc (bitlength (n div 2)))"

declare bitlength.simps [simp del]

text \<open>\<open>m / 2^k\<close> rounded to the nearest integer, a tie to the even one.\<close>

definition round_even :: "int \<Rightarrow> nat \<Rightarrow> int" where
  "round_even m k =
     (let q = m div 2 ^ k; r = m mod 2 ^ k
      in if 2 * r > 2 ^ k \<or> (2 * r = 2 ^ k \<and> odd q) then q + 1 else q)"

text \<open>
  The double nearest to the exact value \<open>m * 2^e\<close>, ties to even: the significand is cut
  to 53 bits, or to fewer where the exponent would fall below \<open>-1074\<close> (gradual
  underflow), and a result of magnitude \<open>2^1024\<close> or more is an infinity.
  \<open>bitlength \<bar>m\<bar> + e\<close> exceeds 1024 exactly when \<open>\<bar>m\<bar> * 2^e\<close> reaches \<open>2^1024\<close>.
\<close>

definition to_double :: "int \<Rightarrow> int \<Rightarrow> double" where
  "to_double m e =
     (let k = max (int (bitlength (nat \<bar>m\<bar>)) - 53) (- 1074 - e);
          m' = (if 0 < k then round_even m (nat k) else m);
          e' = (if 0 < k then e + k else e)
      in if m' \<noteq> 0 \<and> 1024 < int (bitlength (nat \<bar>m'\<bar>)) + e'
         then (if 0 < m' then PosInfinity else NegInfinity)
         else Dyadic m' e')"

text \<open>\<open>x + y\<close>: the exact sum, rounded.\<close>

fun fadd :: "double \<Rightarrow> double \<Rightarrow> double" where
  "fadd NaN y = NaN"
| "fadd x NaN = NaN"
| "fadd PosInfinity NegInfinity = NaN"
| "fadd NegInfinity PosInfinity = NaN"
| "fadd PosInfinity y = PosInfinity"
| "fadd x PosInfinity = PosInfinity"
| "fadd NegInfinity y = NegInfinity"
| "fadd x NegInfinity = NegInfinity"
| "fadd (Dyadic m1 e1) (Dyadic m2 e2) =
     to_double (m1 * 2 ^ nat (e1 - min e1 e2) + m2 * 2 ^ nat (e2 - min e1 e2)) (min e1 e2)"

fun fneg :: "double \<Rightarrow> double" where
  "fneg (Dyadic m e) = Dyadic (- m) e"
| "fneg PosInfinity = NegInfinity"
| "fneg NegInfinity = PosInfinity"
| "fneg NaN = NaN"

text \<open>\<open>x - y\<close>, which IEEE 754 defines as \<open>x + (-y)\<close>.\<close>

definition fsub :: "double \<Rightarrow> double \<Rightarrow> double" where
  "fsub x y = fadd x (fneg y)"

text \<open>\<open>x / 2\<close>: the exact half, rounded.\<close>

fun fhalf :: "double \<Rightarrow> double" where
  "fhalf (Dyadic m e) = to_double m (e - 1)"
| "fhalf PosInfinity = PosInfinity"
| "fhalf NegInfinity = NegInfinity"
| "fhalf NaN = NaN"

text \<open>The real number \<open>m * 2^e\<close>.\<close>

definition valof :: "int \<Rightarrow> int \<Rightarrow> real" where
  "valof m e = (if 0 \<le> e then of_int m * 2 ^ nat e else of_int m / 2 ^ nat (- e))"

text \<open>\<open>x > y\<close> and \<open>x === y\<close> on numbers; every comparison with \<open>NaN\<close> is false.\<close>

fun fgt :: "double \<Rightarrow> double \<Rightarrow> bool" where
  "fgt NaN y = False"
| "fgt x NaN = False"
| "fgt x PosInfinity = False"
| "fgt PosInfinity y = True"
| "fgt NegInfinity y = False"
| "fgt x NegInfinity = True"
| "fgt (Dyadic m1 e1) (Dyadic m2 e2) = (valof m1 e1 > valof m2 e2)"

fun feq :: "double \<Rightarrow> double \<Rightarrow> bool" where
  "feq (Dyadic m1 e1) (Dyadic m2 e2) = (valof m1 e1 = valof m2 e2)"
| "feq PosInfinity PosInfinity = True"
| "feq NegInfinity NegInfinity = True"
| "feq x y = False"

text \<open>
  The literals \<open>0.04\<close> (the threshold of the detector) and \<open>0.0401\<close>: the doubles nearest
  to 4/100 and to 401/10000.
\<close>

definition lit_0_04 :: double where
  "lit_0_04 = Dyadic 5764607523034235 (- 57)"

definition lit_0_0401 :: double where
  "lit_0_0401 = Dyadic 5779019041841820 (- 57)"

subsection \<open>Data\<close>

record landmark =
  lm_x :: double
  lm_y :: double

text \<open>\<open>results.poseLandmarks\<close> is absent (\<open>None\<close>) when the pose is lost.\<close>

record pose_results =
  poseLandmarks :: "landmark list option"

datatype js_error = TypeError

record session_stats =
  totalJumps :: int
  totalPlayTime :: real
  totalScore :: int
  roundsPlayed :: int

record streak_t =
  current :: int
  best :: int
  lastScore :: int

text \<open>An entry of the local leaderboard (\<open>part_000\<close>, lines 705-710).\<close>

record lb_entry =
  score :: int
  date :: int
  jumps :: int
  time :: int

text \<open>A record pushed to the Firebase leaderboard (\<open>part_000\<close>, lines 168-175).\<close>

record fb_record =
  fb_name :: string
  fb_score :: int
  fb_timestamp :: int
  fb_jumps :: int
  fb_time :: int
  fb_gameMode :: string

text \<open>
  \<open>localStorage\<close>, one typed slot per key; \<open>None\<close> is a missing key. Serialisation to
  JSON and back is taken to be the identity.
\<close>

record 'e storage =
  dino_leaderboard :: "'e list option"
  dino_session_stats :: "session_stats option"
  dino_streak :: "streak_t option"
  dino_theme :: "string option"
  dino_player_name :: "string option"

text \<open>
  The refs of \<open>src/App.jsx\<close>. \<open>jumpEvents\<close> makes the effect of a detection explicit: the
  clock readings at which \<open>playSound(jumpBufferRef.current); simulateSpacebar()\<close> ran,
  oldest first.
\<close>

record detector =
  prevShoulderRef :: "double option"
  lastJumpTimeRef :: int
  jumpEvents :: "int list"

text \<open>The refs and React state of the revision with statistics (\<open>part_000\<close>, lines 646-680).\<close>

record 'e tracker = detector +
  jumpCountRef :: int
  roundStartRef :: int
  leaderboard :: "'e list"
  sessionStats :: session_stats
  streak :: streak_t
  theme :: string
  lastGameScore :: "int option"
  newHighlight :: int
  localStorage :: "'e storage"

datatype game_state = START | PLAYING | GAME_OVER

text \<open>
  The arcade revision (\<open>part_000\<close>, lines 50-133). \<open>firebase\<close> is the list of records
  handed to \<open>push(ref(database, 'leaderboard'), ...)\<close>, oldest first.
\<close>

record arcade = "fb_record tracker" +
  playerNameRef :: string
  isGameActiveRef :: bool
  playerName :: string
  gameState :: game_state
  inputName :: string
  firebase :: "fb_record list"

subsection \<open>JavaScript built-ins used by the code\<close>

definition isWhiteSpace :: "char \<Rightarrow> bool" where
  "isWhiteSpace c = ((of_char c :: nat) \<in> {9, 10, 11, 12, 13, 32})"

definition isDigit :: "char \<Rightarrow> bool" where
  "isDigit c = (48 \<le> (of_char c :: nat) \<and> (of_char c :: nat) \<le> 57)"

definition digitVal :: "char \<Rightarrow> int" where
  "digitVal c = int (of_char c) - 48"

text \<open>
  \<open>parseInt(str, 10)\<close>: leading white space is skipped, one sign is read, then the longest
  run of decimal digits; \<open>None\<close> stands for \<open>NaN\<close> (no digit found).
\<close>

definition parseInt :: "string \<Rightarrow> int option" where
  "parseInt str =
     (let s = dropWhile isWhiteSpace str;
          sgn_rest = (case s of
                        [] \<Rightarrow> (1, s)
                      | c # r \<Rightarrow> if c = CHR ''-'' then (- 1, r)
                                 else if c = CHR ''+'' then (1, r) else (1, s));
          z = takeWhile isDigit (snd sgn_rest)
      in if z = [] then None
         else Some (fst sgn_rest * foldl (\<lambda>a c. 10 * a + digitVal c) 0 z))"

text \<open>\<open>Math.round\<close>: the nearest integer, a half rounded up.\<close>

definition Math_round :: "real \<Rightarrow> int" where
  "Math_round v = \<lfloor>v + 1 / 2\<rfloor>"

text \<open>\<open>String.prototype.trim\<close> and \<open>toUpperCase\<close>, on ASCII.\<close>

definition trim :: "string \<Rightarrow> string" where
  "trim str = rev (dropWhile isWhiteSpace (rev (dropWhile isWhiteSpace str)))"

definition toUpperCase :: "string \<Rightarrow> string" where
  "toUpperCase str =
     map (\<lambda>c. if 97 \<le> (of_char c :: nat) \<and> (of_char c :: nat) \<le> 122
              then char_of ((of_char c :: nat) - 32) else c) str"

text \<open>\<open>Array.prototype.findIndex\<close>: the first index whose element passes, or \<open>-1\<close>.\<close>

fun findIndex :: "('a \<Rightarrow> bool) \<Rightarrow> 'a list \<Rightarrow> int" where
  "findIndex P [] = - 1"
| "findIndex P (x # xs) =
     (if P x then 0 else (let i = findIndex P xs in if i < 0 then - 1 else i + 1))"

text \<open>
  \<open>xs.sort((a, b) => b.score - a.score)\<close>: \<open>Array.prototype.sort\<close> is stable, so the
  result is the one list ordered by descending score in which entries of equal score keep
  their order; \<open>sort_key\<close> on the negated score computes it.
\<close>

definition sort_by_score :: "('e \<Rightarrow> int) \<Rightarrow> 'e list \<Rightarrow> 'e list" where
  "sort_by_score sc xs = sort_key (\<lambda>e. - sc e) xs"

text \<open>\<open>loadStored(key, fallback)\<close> (\<open>part_000\<close>, lines 18-25).\<close>

definition loadStored :: "'a option \<Rightarrow> 'a \<Rightarrow> 'a" where
  "loadStored item fallback = (case item of None \<Rightarrow> fallback | Some v \<Rightarrow> v)"

subsection \<open>Jump detection: \<open>pose.onResults\<close>\<close>

text \<open>
  The motion signal (\<open>src/App.jsx\<close>, lines 90-92): the mean height of the shoulder
  landmarks, indices 11 and 12.
\<close>

definition avgShoulderY :: "landmark list \<Rightarrow> double" where
  "avgShoulderY lms = fhalf (fadd (lm_y (lms ! 11)) (lm_y (lms ! 12)))"

text \<open>
  \<open>src/App.jsx\<close>, lines 89-108. Reading \<open>.y\<close> of a missing landmark throws before any ref
  is written.
\<close>

definition onResults_App ::
  "pose_results \<Rightarrow> int \<Rightarrow> 'a detector_scheme \<Rightarrow> js_error + 'a detector_scheme" where
  "onResults_App results now s =
     (case poseLandmarks results of
        None \<Rightarrow> Inr s
      | Some lms \<Rightarrow>
          if length lms \<le> 12 then Inl TypeError
          else
            let avg = avgShoulderY lms;
                s1 = (case prevShoulderRef s of
                        None \<Rightarrow> s
                      | Some prev \<Rightarrow>
                          let diff = fsub prev avg in
                          if fgt diff lit_0_04 \<and> now - lastJumpTimeRef s > 500
                          then s\<lparr>lastJumpTimeRef := now, jumpEvents := jumpEvents s @ [now]\<rparr>
                          else s)
            in Inr (s1\<lparr>prevShoulderRef := Some avg\<rparr>))"

text \<open>\<open>part_000\<close>, lines 821-849: as above, and a detection counts a jump.\<close>

definition onResults_local ::
  "pose_results \<Rightarrow> int \<Rightarrow> ('e, 'a) tracker_scheme \<Rightarrow> js_error + ('e, 'a) tracker_scheme" where
  "onResults_local results now s =
     (case poseLandmarks results of
        None \<Rightarrow> Inr s
      | Some lms \<Rightarrow>
          if length lms \<le> 12 then Inl TypeError
          else
            let avg = avgShoulderY lms;
                s1 = (case prevShoulderRef s of
                        None \<Rightarrow> s
                      | Some prev \<Rightarrow>
                          let diff = fsub prev avg in
                          if fgt diff lit_0_04 \<and> now - lastJumpTimeRef s > 500
                          then s\<lparr>lastJumpTimeRef := now, jumpEvents := jumpEvents s @ [now],
                                 jumpCountRef := jumpCountRef s + 1\<rparr>
                          else s)
            in Inr (s1\<lparr>prevShoulderRef := Some avg\<rparr>))"

text \<open>
  \<open>part_000\<close>, lines 294-322: the comparison runs only while \<open>isGameActiveRef.current\<close>
  holds.
\<close>

definition onResults_arcade :: "pose_results \<Rightarrow> int \<Rightarrow> arcade \<Rightarrow> js_error + arcade" where
  "onResults_arcade results now s =
     (case poseLandmarks results of
        None \<Rightarrow> Inr s
      | Some lms \<Rightarrow>
          if length lms \<le> 12 then Inl TypeError
          else
            let avg = avgShoulderY lms;
                s1 = (case prevShoulderRef s of
                        None \<Rightarrow> s
                      | Some prev \<Rightarrow>
                          if isGameActiveRef s then
                            let diff = fsub prev avg in
                            if fgt diff lit_0_04 \<and> now - lastJumpTimeRef s > 500
                            then s\<lparr>lastJumpTimeRef := now, jumpEvents := jumpEvents s @ [now],
                                   jumpCountRef := jumpCountRef s + 1\<rparr>
                            else s
                          else s)
            in Inr (s1\<lparr>prevShoulderRef := Some avg\<rparr>))"

text \<open>
  A stream of camera callbacks, each with its clock reading. A callback that throws has
  written no ref, so the next one sees the state the failed one saw.
\<close>

fun feed_App :: "'a detector_scheme \<Rightarrow> (pose_results \<times> int) list \<Rightarrow> 'a detector_scheme" where
  "feed_App s [] = s"
| "feed_App s ((results, now) # fs) =
     feed_App (case onResults_App results now s of Inl _ \<Rightarrow> s | Inr s' \<Rightarrow> s') fs"

fun feed_local ::
  "('e, 'a) tracker_scheme \<Rightarrow> (pose_results \<times> int) list \<Rightarrow> ('e, 'a) tracker_scheme" where
  "feed_local s [] = s"
| "feed_local s ((results, now) # fs) =
     feed_local (case onResults_local results now s of Inl _ \<Rightarrow> s | Inr s' \<Rightarrow> s') fs"

subsection \<open>Round results: statistics, streak, leaderboard\<close>

text \<open>
  The score read at game over (\<open>part_000\<close>, lines 150-156 and 691-697). The argument is
  \<open>window.Runner.instance_.distanceMeter.digits\<close>; \<open>None\<close> when reading it or calling
  \<open>join\<close> on it throws. \<open>NaN || 0\<close> is \<open>0\<close>.
\<close>

definition engine_score :: "string list option \<Rightarrow> int" where
  "engine_score digits =
     (case digits of
        None \<Rightarrow> 0
      | Some ds \<Rightarrow> (case parseInt (concat ds) of None \<Rightarrow> 0 | Some n \<Rightarrow> n))"

text \<open>The updater given to \<open>setSessionStats\<close> (\<open>part_000\<close>, lines 180-189 and 723-732).\<close>

definition sessionStats_updater :: "int \<Rightarrow> int \<Rightarrow> real \<Rightarrow> session_stats \<Rightarrow> session_stats" where
  "sessionStats_updater sc jmps roundTime prev =
     \<lparr>totalJumps = totalJumps prev + jmps,
      totalPlayTime = totalPlayTime prev + roundTime,
      totalScore = totalScore prev + sc,
      roundsPlayed = roundsPlayed prev + 1\<rparr>"

text \<open>The updater given to \<open>setStreak\<close> (\<open>part_000\<close>, lines 191-205 and 734-748).\<close>

definition streak_updater :: "int \<Rightarrow> streak_t \<Rightarrow> streak_t" where
  "streak_updater sc prev =
     (if lastScore prev = 0 \<or> sc > lastScore prev
      then let cur = current prev + 1
           in \<lparr>current = cur, best = max (best prev) cur, lastScore = sc\<rparr>
      else \<lparr>current = 0, best = best prev, lastScore = sc\<rparr>)"

text \<open>
  The updater given to \<open>setLeaderboard\<close> (\<open>part_000\<close>, lines 711-716), for a built entry:
  the new list and the index handed to \<open>setNewHighlight\<close>.
\<close>

definition leaderboard_updater :: "lb_entry \<Rightarrow> lb_entry list \<Rightarrow> lb_entry list \<times> int" where
  "leaderboard_updater entry prev =
     (let updated = take 5 (sort_by_score score (prev @ [entry]));
          idx = findIndex (\<lambda>e. date e = date entry \<and> score e = score entry) updated
      in (updated, idx))"

subsection \<open>The game-over handlers\<close>

text \<open>
  \<open>handleGameOver\<close> of the revision with the local leaderboard (\<open>part_000\<close>, lines
  690-752). The three clock readings are those of lines 701, 707 and 751. The timer of
  line 718, which clears the highlight three seconds later, is a later event and not part
  of the handler's result.
\<close>

definition handleGameOver_local ::
  "string list option \<Rightarrow> int \<Rightarrow> int \<Rightarrow> int \<Rightarrow> (lb_entry, 'a) tracker_scheme
     \<Rightarrow> (lb_entry, 'a) tracker_scheme" where
  "handleGameOver_local digits now_round now_entry now_reset s =
     (let sc = engine_score digits;
          roundTime = real_of_int (now_round - roundStartRef s) / 1000;
          jmps = jumpCountRef s;
          entry = \<lparr>score = sc, date = now_entry, jumps = jmps, time = Math_round roundTime\<rparr>;
          lb = leaderboard_updater entry (leaderboard s);
          stats = sessionStats_updater sc jmps roundTime (sessionStats s);
          newStreak = streak_updater sc (streak s)
      in s\<lparr>lastGameScore := Some sc,
            leaderboard := fst lb,
            newHighlight := snd lb,
            sessionStats := stats,
            streak := newStreak,
            localStorage := (localStorage s)
              \<lparr>dino_leaderboard := Some (fst lb),
               dino_session_stats := Some stats,
               dino_streak := Some newStreak\<rparr>,
            jumpCountRef := 0,
            roundStartRef := now_reset\<rparr>)"

text \<open>
  \<open>handleGameOver\<close> of the arcade revision (\<open>part_000\<close>, lines 143-209). The clock
  readings are those of lines 160 and 171.
\<close>

definition handleGameOver_arcade ::
  "string list option \<Rightarrow> int \<Rightarrow> int \<Rightarrow> arcade \<Rightarrow> arcade" where
  "handleGameOver_arcade digits now_round now_push s =
     (if \<not> isGameActiveRef s then s
      else
        let s0 = s\<lparr>isGameActiveRef := False\<rparr>;
            sc = engine_score digits;
            roundTime = real_of_int (now_round - roundStartRef s0) / 1000;
            jmps = jumpCountRef s0;
            currentPlayer = playerNameRef s0;
            pushed = (if currentPlayer \<noteq> []
                      then [\<lparr>fb_name = currentPlayer, fb_score = sc, fb_timestamp = now_push,
                             fb_jumps = jmps, fb_time = Math_round roundTime,
                             fb_gameMode = ''arcade''\<rparr>]
                      else []);
            stats = sessionStats_updater sc jmps roundTime (sessionStats s0);
            newStreak = streak_updater sc (streak s0)
        in s0\<lparr>lastGameScore := Some sc,
               firebase := firebase s0 @ pushed,
               sessionStats := stats,
               streak := newStreak,
               localStorage := (localStorage s0)
                 \<lparr>dino_session_stats := Some stats, dino_streak := Some newStreak\<rparr>,
               gameState := GAME_OVER\<rparr>)"

subsection \<open>Other handlers\<close>

text \<open>\<open>resetStats\<close> (\<open>part_000\<close>, lines 376-387 and 903-914, the same text).\<close>

definition resetStats :: "('e, 'a) tracker_scheme \<Rightarrow> ('e, 'a) tracker_scheme" where
  "resetStats s =
     (let empty = \<lparr>totalJumps = 0, totalPlayTime = 0, totalScore = 0, roundsPlayed = 0\<rparr>;
          zero = \<lparr>current = 0, best = 0, lastScore = 0\<rparr>
      in s\<lparr>localStorage := (localStorage s)
              \<lparr>dino_session_stats := Some empty, dino_streak := Some zero\<rparr>,
            sessionStats := empty,
            streak := zero\<rparr>)"

text \<open>\<open>resetLeaderboard\<close> (\<open>part_000\<close>, lines 371-374 and 898-901).\<close>

definition resetLeaderboard :: "('e, 'a) tracker_scheme \<Rightarrow> ('e, 'a) tracker_scheme" where
  "resetLeaderboard s =
     s\<lparr>localStorage := (localStorage s)\<lparr>dino_leaderboard := Some []\<rparr>, leaderboard := []\<rparr>"

text \<open>\<open>toggleTheme\<close> (\<open>part_000\<close>, lines 136-140).\<close>

definition toggleTheme :: "('e, 'a) tracker_scheme \<Rightarrow> ('e, 'a) tracker_scheme" where
  "toggleTheme s =
     (let newTheme = (if theme s = ''dark'' then ''light'' else ''dark'')
      in s\<lparr>theme := newTheme,
            localStorage := (localStorage s)\<lparr>dino_theme := Some newTheme\<rparr>\<rparr>)"

text \<open>\<open>handleNameSubmit\<close> (\<open>part_000\<close>, lines 78-91).\<close>

definition handleNameSubmit :: "int \<Rightarrow> arcade \<Rightarrow> arcade" where
  "handleNameSubmit now s =
     (if trim (inputName s) \<noteq> [] then
        let name = take 10 (toUpperCase (trim (inputName s)))
        in s\<lparr>playerName := name,
              playerNameRef := name,
              localStorage := (localStorage s)\<lparr>dino_player_name := Some name\<rparr>,
              gameState := PLAYING,
              isGameActiveRef := True,
              jumpCountRef := 0,
              roundStartRef := now\<rparr>
      else s)"

text \<open>\<open>handleRetry\<close> (\<open>part_000\<close>, lines 93-102); restarting the engine is not state of this model.\<close>

definition handleRetry :: "int \<Rightarrow> arcade \<Rightarrow> arcade" where
  "handleRetry now s =
     s\<lparr>gameState := PLAYING, isGameActiveRef := True, jumpCountRef := 0, roundStartRef := now\<rparr>"

text \<open>\<open>handleMainMenu\<close> (\<open>part_000\<close>, lines 104-111).\<close>

definition handleMainMenu :: "arcade \<Rightarrow> arcade" where
  "handleMainMenu s =
     s\<lparr>gameState := START,
       playerName := [],
       playerNameRef := [],
       isGameActiveRef := False,
       localStorage := (localStorage s)\<lparr>dino_player_name := None\<rparr>,
       inputName := []\<rparr>"

text \<open>
  The Firebase listener (\<open>part_000\<close>, lines 224-233); the argument is
  \<open>Object.values(snapshot.val())\<close>, \<open>None\<close> for an empty snapshot.
\<close>

definition onValue :: "fb_record list option \<Rightarrow> arcade \<Rightarrow> arcade" where
  "onValue data s =
     (case data of
        Some vs \<Rightarrow> s\<lparr>leaderboard := sort_by_score fb_score vs\<rparr>
      | None \<Rightarrow> s\<lparr>leaderboard := []\<rparr>)"

subsection \<open>The mounted components\<close>

text \<open>The refs of \<open>src/App.jsx\<close> after mounting (lines 10-11).\<close>

definition mount_App :: detector where
  "mount_App = \<lparr>prevShoulderRef = None, lastJumpTimeRef = 0, jumpEvents = []\<rparr>"

text \<open>
  The revision with the local leaderboard after mounting (\<open>part_000\<close>, lines 646-680),
  from the contents of \<open>localStorage\<close> and the clock reading of line 658.
\<close>

definition mount_local :: "lb_entry storage \<Rightarrow> int \<Rightarrow> lb_entry tracker" where
  "mount_local st now =
     \<lparr>prevShoulderRef = None,
      lastJumpTimeRef = 0,
      jumpEvents = [],
      jumpCountRef = 0,
      roundStartRef = now,
      leaderboard = loadStored (dino_leaderboard st) [],
      sessionStats = loadStored (dino_session_stats st)
        \<lparr>totalJumps = 0, totalPlayTime = 0, totalScore = 0, roundsPlayed = 0\<rparr>,
      streak = loadStored (dino_streak st) \<lparr>current = 0, best = 0, lastScore = 0\<rparr>,
      theme = loadStored (dino_theme st) ''dark'',
      lastGameScore = None,
      newHighlight = - 1,
      localStorage = st\<rparr>"

subsection \<open>The arcade revision as a state machine\<close>

text \<open>
  The component after mounting (\<open>part_000\<close>, lines 50-133), from the contents of
  \<open>localStorage\<close> and the clock reading of line 62. The player name is read with
  \<open>localStorage.getItem('dino_player_name') || ''\<close>, which is \<open>loadStored\<close> with the empty
  string as fallback.
\<close>

definition mount :: "fb_record storage \<Rightarrow> int \<Rightarrow> arcade" where
  "mount st now =
     \<lparr>prevShoulderRef = None,
      lastJumpTimeRef = 0,
      jumpEvents = [],
      jumpCountRef = 0,
      roundStartRef = now,
      leaderboard = loadStored (dino_leaderboard st) [],
      sessionStats = loadStored (dino_session_stats st)
        \<lparr>totalJumps = 0, totalPlayTime = 0, totalScore = 0, roundsPlayed = 0\<rparr>,
      streak = loadStored (dino_streak st) \<lparr>current = 0, best = 0, lastScore = 0\<rparr>,
      theme = loadStored (dino_theme st) ''dark'',
      lastGameScore = None,
      newHighlight = - 1,
      localStorage = st,
      playerNameRef = loadStored (dino_player_name st) [],
      isGameActiveRef = False,
      playerName = loadStored (dino_player_name st) [],
      gameState = START,
      inputName = loadStored (dino_player_name st) [],
      firebase = []\<rparr>"

text \<open>
  Everything that can happen to the mounted component. The name form is rendered in
  \<open>START\<close> only and the retry and menu buttons in \<open>GAME_OVER\<close> only (lines 398 and 425),
  the clear button only for a non-empty leaderboard (line 588); an event whose control is
  not rendered changes nothing. \<open>Crash\<close> is the engine's game-over notification
  (\<open>handleCrash\<close>, lines 238-241), which may arrive in any state.
\<close>

datatype arcade_event =
    PoseResults pose_results int
  | InputChange string
  | NameSubmit int
  | Retry int
  | MainMenu
  | Crash "string list option" int int
  | ToggleTheme
  | ResetStats
  | ResetLeaderboard
  | Snapshot "fb_record list option"

fun step :: "arcade \<Rightarrow> arcade_event \<Rightarrow> arcade" where
  "step s (PoseResults results now) =
     (case onResults_arcade results now s of Inl _ \<Rightarrow> s | Inr s' \<Rightarrow> s')"
| "step s (InputChange v) = (if gameState s = START then s\<lparr>inputName := v\<rparr> else s)"
| "step s (NameSubmit now) = (if gameState s = START then handleNameSubmit now s else s)"
| "step s (Retry now) = (if gameState s = GAME_OVER then handleRetry now s else s)"
| "step s MainMenu = (if gameState s = GAME_OVER then handleMainMenu s else s)"
| "step s (Crash digits now_round now_push) = handleGameOver_arcade digits now_round now_push s"
| "step s ToggleTheme = toggleTheme s"
| "step s ResetStats = resetStats s"
| "step s ResetLeaderboard = (if leaderboard s \<noteq> [] then resetLeaderboard s else s)"
| "step s (Snapshot data) = onValue data s"

definition run :: "arcade \<Rightarrow> arcade_event list \<Rightarrow> arcade" where
  "run s es = foldl step s es"

text \<open>
  What holds in every state the arcade revision can reach: the active flag is set exactly
  in \<open>PLAYING\<close>, a player name is present outside \<open>START\<close>, and the name ref agrees
  with the name state.
\<close>

definition round_inv :: "arcade \<Rightarrow> bool" where
  "round_inv s =
     ((isGameActiveRef s = (gameState s = PLAYING)) \<and>
      (gameState s \<noteq> START \<longrightarrow> playerNameRef s \<noteq> []) \<and>
      playerName s = playerNameRef s)"

text \<open>The streak after a sequence of rounds with the given scores, oldest first.\<close>

definition rounds :: "streak_t \<Rightarrow> int list \<Rightarrow> streak_t" where
  "rounds st scs = foldl (\<lambda>prev sc. streak_updater sc prev) st scs"

subsection \<open>Sample inputs\<close>

text \<open>
  A frame whose landmarks all lie at height \<open>v\<close>, and the frame of a lost pose. The heights
  used below are 0.5, 0.375, 0.25, 0.125 and 0, written \<open>Dyadic 1 (-1)\<close>, \<open>Dyadic 3 (-3)\<close>,
  \<open>Dyadic 1 (-2)\<close>, \<open>Dyadic 1 (-3)\<close> and \<open>Dyadic 0 0\<close>, and the two literals.
\<close>

definition frame :: "double \<Rightarrow> pose_results" where
  "frame v = \<lparr>poseLandmarks = Some (replicate 33 \<lparr>lm_x = Dyadic 1 (- 1), lm_y = v\<rparr>)\<rparr>"

definition lost :: pose_results where
  "lost = \<lparr>poseLandmarks = None\<rparr>"

definition empty_storage :: "'e storage" where
  "empty_storage =
     \<lparr>dino_leaderboard = None, dino_session_stats = None, dino_streak = None,
      dino_theme = None, dino_player_name = None\<rparr>"

text \<open>
  The score digits \<open>00150\<close>; an arcade round in which player \<open>BOB\<close> has jumped once;
  and a full local leaderboard.
\<close>

definition sample_digits :: "string list option" where
  "sample_digits = Some [''0'', ''0'', ''1'', ''5'', ''0'']"

definition sample_round :: arcade where
  "sample_round = run (mount empty_storage 0)
     [InputChange '' bob '', NameSubmit 500, PoseResults (frame (Dyadic 1 (- 1))) 1000,
      PoseResults (frame (Dyadic 3 (- 3))) 2000]"

definition sample_board :: "lb_entry list" where
  "sample_board =
     [\<lparr>score = 100, date = 1, jumps = 9, time = 60\<rparr>,
      \<lparr>score = 90, date = 2, jumps = 8, time = 50\<rparr>,
      \<lparr>score = 80, date = 3, jumps = 7, time = 40\<rparr>,
      \<lparr>score = 70, date = 4, jumps = 6, time = 30\<rparr>,
      \<lparr>score = 60, date = 5, jumps = 5, time = 20\<rparr>]"

text \<open>The arcade revision on its start screen, one frame seen, no round started.\<close>

definition menu_idle :: arcade where
  "menu_idle = run (mount empty_storage 0) [PoseResults (frame (Dyadic 1 (- 1))) 900]"

text \<open>
  Four stored entries of score 150, and the full leaderboard the local revision holds after
  a first round of score 150 has ended at 42300 ms, 42.3 s after mounting.
\<close>

definition four_tied :: "lb_entry list" where
  "four_tied =
     [\<lparr>score = 150, date = 10, jumps = 4, time = 40\<rparr>,
      \<lparr>score = 150, date = 20, jumps = 5, time = 41\<rparr>,
      \<lparr>score = 150, date = 30, jumps = 6, time = 42\<rparr>,
      \<lparr>score = 150, date = 40, jumps = 7, time = 43\<rparr>]"

definition tied_board :: "lb_entry list" where
  "tied_board = four_tied @ [\<lparr>score = 150, date = 42300, jumps = 0, time = 42\<rparr>]"

definition tied_start :: "lb_entry tracker" where
  "tied_start = mount_local (empty_storage\<lparr>dino_leaderboard := Some four_tied\<rparr>) 0"

section \<open>Properties\<close>

subsection \<open>Evaluating binary64 arithmetic\<close>

lemma bitlength_0 [simp]: "bitlength 0 = 0"
  by (simp add: bitlength.simps)

lemma bitlength_1 [simp]: "bitlength (Suc 0) = Suc 0"
  by (simp add: bitlength.simps)

lemma bitlength_Bit0 [simp]: "bitlength (numeral (Num.Bit0 k)) = Suc (bitlength (numeral k))"
proof -
  have e: "(numeral (Num.Bit0 k) :: nat) = 2 * numeral k"
    by (rule numeral_Bit0_eq_double)
  have d: "(2 * numeral k :: nat) div 2 = numeral k"
    by (rule nonzero_mult_div_cancel_left) (simp only: numeral_neq_zero not_False_eq_True)
  have nz: "(2 * numeral k :: nat) \<noteq> 0"
    by (simp only: mult_eq_0_iff numeral_neq_zero not_False_eq_True de_Morgan_disj simp_thms)
  show ?thesis
    unfolding e by (subst bitlength.simps) (simp only: d nz if_False)
qed

lemma bitlength_Bit1 [simp]: "bitlength (numeral (Num.Bit1 k)) = Suc (bitlength (numeral k))"
proof -
  have e: "(numeral (Num.Bit1 k) :: nat) = 2 * numeral k + 1"
    by (rule numeral_Bit1_eq_inc_double)
  have d: "(2 * numeral k + 1 :: nat) div 2 = numeral k"
  proof -
    have "(2 * n + 1) div 2 = n" for n :: nat by presburger
    then show ?thesis .
  qed
  have nz: "(2 * numeral k + 1 :: nat) \<noteq> 0"
  proof -
    have "2 * n + 1 \<noteq> 0" for n :: nat by presburger
    then show ?thesis .
  qed
  show ?thesis
    unfolding e by (subst bitlength.simps) (simp only: d nz if_False)
qed

text \<open>\<open>bitlength n\<close> is the position of the leading binary digit of \<open>n\<close>.\<close>

lemma bitlength_bounds: "n < 2 ^ bitlength n \<and> (n \<noteq> 0 \<longrightarrow> 2 ^ (bitlength n - 1) \<le> n)"
proof (induction n rule: bitlength.induct)
  case (1 n)
  show ?case
  proof (cases "n = 0")
    case True
    then show ?thesis by simp
  next
    case False
    then have b: "bitlength n = Suc (bitlength (n div 2))"
      by (subst bitlength.simps) simp
    from 1[OF False] have u: "n div 2 < 2 ^ bitlength (n div 2)"
      and l: "n div 2 \<noteq> 0 \<longrightarrow> 2 ^ (bitlength (n div 2) - 1) \<le> n div 2" by simp_all
    have "n < 2 * 2 ^ bitlength (n div 2)" using u by linarith
    moreover have "2 ^ bitlength (n div 2) \<le> n"
    proof (cases "n div 2 = 0")
      case True
      then have "n = 1" using False by linarith
      then show ?thesis by simp
    next
      case nz: False
      then have "0 < bitlength (n div 2)" by (subst bitlength.simps) simp
      then have "(2::nat) ^ bitlength (n div 2) = 2 * 2 ^ (bitlength (n div 2) - 1)"
        by (cases "bitlength (n div 2)") simp_all
      with l nz show ?thesis by linarith
    qed
    ultimately show ?thesis unfolding b by simp
  qed
qed

lemma bitlength_le: "n < 2 ^ k \<Longrightarrow> bitlength n \<le> k"
proof (rule ccontr)
  assume n: "n < 2 ^ k" and "\<not> bitlength n \<le> k"
  then have k: "k \<le> bitlength n - 1" and nz: "n \<noteq> 0"
    by (auto simp: not_le intro: ccontr)
  have "(2::nat) ^ k \<le> 2 ^ (bitlength n - 1)" using k by (rule power_increasing) simp
  also have "\<dots> \<le> n" using bitlength_bounds[of n] nz by blast
  finally show False using n by simp
qed

text \<open>A value that is a double already is returned as it is.\<close>

lemma to_double_exact:
  assumes "\<bar>m\<bar> < 2 ^ 53" and "- 1074 \<le> e" and "int (bitlength (nat \<bar>m\<bar>)) + e \<le> 1024"
  shows "to_double m e = Dyadic m e"
proof -
  have "nat \<bar>m\<bar> < 2 ^ 53" using assms(1) by (simp add: nat_less_iff)
  then have "bitlength (nat \<bar>m\<bar>) \<le> 53" by (rule bitlength_le)
  then have k: "\<not> 0 < max (int (bitlength (nat \<bar>m\<bar>)) - 53) (- 1074 - e)"
    using assms(2) by simp
  have o: "\<not> (m \<noteq> 0 \<and> 1024 < int (bitlength (nat \<bar>m\<bar>)) + e)"
    using assms(3) by simp
  show ?thesis
    unfolding to_double_def Let_def by (simp only: k o if_False)
qed

text \<open>Rounding moves a value by at most half a unit of the digit it keeps.\<close>

lemma round_even_nearest: "2 * \<bar>round_even m k * 2 ^ k - m\<bar> \<le> 2 ^ k"
proof -
  define q where "q = m div 2 ^ k"
  define r where "r = m mod 2 ^ k"
  have m: "m = q * 2 ^ k + r" unfolding q_def r_def by (rule div_mult_mod_eq [symmetric])
  have r: "0 \<le> r" "r < 2 ^ k" unfolding r_def by simp_all
  show ?thesis
  proof (cases "2 * r > 2 ^ k \<or> (2 * r = 2 ^ k \<and> odd q)")
    case True
    then have "round_even m k = q + 1"
      by (simp add: round_even_def Let_def q_def r_def)
    then have "round_even m k * 2 ^ k - m = 2 ^ k - r"
      unfolding m by (simp add: algebra_simps)
    with True r show ?thesis by auto
  next
    case False
    then have "round_even m k = q"
      by (simp add: round_even_def Let_def q_def r_def)
    then have "round_even m k * 2 ^ k - m = - r"
      unfolding m by (simp add: algebra_simps)
    with False r show ?thesis by auto
  qed
qed

text \<open>
  Ties go to the even significand (\<open>1 + 2^-53 = 1\<close>, \<open>3 + 2^-52\<close> rounds up), subnormal
  results lose digits below \<open>2^-1074\<close>, sums at the top of the range overflow only from
  half a unit up, and the mean of a double with itself is that double.
\<close>

lemma rounding_examples:
  "fadd (Dyadic 1 0) (Dyadic 1 (- 53)) = Dyadic 4503599627370496 (- 52)"
  "fadd (Dyadic 1 0) (Dyadic 3 (- 54)) = Dyadic 4503599627370497 (- 52)"
  "fadd (Dyadic 3 0) (Dyadic 1 (- 52)) = Dyadic 6755399441055744 (- 51)"
  "fhalf (Dyadic 3 (- 1074)) = Dyadic 2 (- 1074)"
  "fhalf (Dyadic 1 (- 1074)) = Dyadic 0 (- 1074)"
  "fadd (Dyadic 9007199254740991 971) (Dyadic 9007199254740991 971) = PosInfinity"
  "fadd (Dyadic 9007199254740991 971) (Dyadic 1 969) = Dyadic 9007199254740991 971"
  "fadd (Dyadic 9007199254740991 971) (Dyadic 1 970) = PosInfinity"
  "fhalf (fadd lit_0_04 lit_0_04) = Dyadic 5764607523034235 (- 57)"
  "fadd (Dyadic 0 2000) (Dyadic 0 0) = Dyadic 0 0"
  "fsub PosInfinity PosInfinity = NaN"
  "\<not> fgt NaN lit_0_04"
  by (simp_all add: lit_0_04_def fsub_def) (simp_all add: to_double_def round_even_def Let_def)

text \<open>The two literals are the doubles nearest to the decimals they are written as.\<close>

lemma lit_0_04_nearest:
  "lit_0_04 = Dyadic 5764607523034235 (- 57) \<and>
   2 ^ 52 \<le> (5764607523034235 :: int) \<and> (5764607523034235 :: int) < 2 ^ 53 \<and>
   \<bar>valof 5764607523034235 (- 57) - 4 / 100\<bar> < 1 / 2 ^ 58"
  by (simp add: lit_0_04_def valof_def)

lemma lit_0_0401_nearest:
  "lit_0_0401 = Dyadic 5779019041841820 (- 57) \<and>
   2 ^ 52 \<le> (5779019041841820 :: int) \<and> (5779019041841820 :: int) < 2 ^ 53 \<and>
   \<bar>valof 5779019041841820 (- 57) - 401 / 10000\<bar> < 1 / 2 ^ 58"
  by (simp add: lit_0_0401_def valof_def)

lemma feq_not_fgt: "feq x y \<Longrightarrow> \<not> fgt x y"
  by (cases x; cases y) simp_all

lemma feq_lit_0_0401_fgt: "feq x lit_0_0401 \<Longrightarrow> fgt x lit_0_04"
  by (cases x) (simp_all add: lit_0_0401_def lit_0_04_def valof_def)

text \<open>The mean height of the sample frames.\<close>

lemma avg_samples:
  "avgShoulderY (replicate 33 \<lparr>lm_x = x, lm_y = Dyadic 1 (- 1)\<rparr>) = Dyadic 2 (- 2)"
  "avgShoulderY (replicate 33 \<lparr>lm_x = x, lm_y = Dyadic 3 (- 3)\<rparr>) = Dyadic 6 (- 4)"
  "avgShoulderY (replicate 33 \<lparr>lm_x = x, lm_y = Dyadic 1 (- 2)\<rparr>) = Dyadic 2 (- 3)"
  "avgShoulderY (replicate 33 \<lparr>lm_x = x, lm_y = Dyadic 1 (- 3)\<rparr>) = Dyadic 2 (- 4)"
  "avgShoulderY (replicate 33 \<lparr>lm_x = x, lm_y = Dyadic 0 0\<rparr>) = Dyadic 0 (- 1)"
  by (simp_all add: avgShoulderY_def) (simp_all add: to_double_def round_even_def Let_def)

text \<open>
  The differences between sample heights against the threshold: each step of 0.125 exceeds
  it; 0.04 itself does not; 0.0401 does; and so does \<open>0.54 - 0.5\<close>, which is
  \<open>0.040000000000000036\<close> in doubles.
\<close>

lemma diff_samples:
  "fgt (fsub (Dyadic 2 (- 2)) (Dyadic 6 (- 4))) lit_0_04"
  "fgt (fsub (Dyadic 6 (- 4)) (Dyadic 2 (- 3))) lit_0_04"
  "fgt (fsub (Dyadic 2 (- 3)) (Dyadic 2 (- 4))) lit_0_04"
  "\<not> fgt (fsub lit_0_04 (Dyadic 0 (- 1))) lit_0_04"
  "feq (fsub lit_0_04 (Dyadic 0 (- 1))) lit_0_04"
  "fgt (fsub lit_0_0401 (Dyadic 0 (- 1))) lit_0_04"
  "feq (fsub lit_0_0401 (Dyadic 0 (- 1))) lit_0_0401"
  "fgt (fsub (Dyadic 607985949695017 (- 50)) (Dyadic 1 (- 1))) lit_0_04"
  by (simp_all add: fsub_def lit_0_04_def lit_0_0401_def)
    (simp_all add: to_double_def round_even_def Let_def valof_def)

subsection \<open>Evaluating the sample inputs\<close>

lemma frame_landmarks:
  "poseLandmarks (frame v) = Some (replicate 33 \<lparr>lm_x = Dyadic 1 (- 1), lm_y = v\<rparr>)"
  by (simp add: frame_def)

lemma name_bob: "take 10 (toUpperCase (trim '' bob '')) = ''BOB'' \<and> trim '' bob '' \<noteq> []"
  by code_simp

lemma engine_score_sample: "engine_score sample_digits = 150"
  by (simp add: engine_score_def sample_digits_def parseInt_def isWhiteSpace_def isDigit_def digitVal_def)

lemma sample_round_eq:
  "sample_round =
    \<lparr>prevShoulderRef = Some (Dyadic 6 (- 4)), lastJumpTimeRef = 2000,
    jumpEvents = [2000], jumpCountRef = 1, roundStartRef = 500,
    leaderboard = [],
    sessionStats = \<lparr>totalJumps = 0, totalPlayTime = 0, totalScore = 0, roundsPlayed = 0\<rparr>,
    streak = \<lparr>current = 0, best = 0, lastScore = 0\<rparr>, theme = ''dark'',
    lastGameScore = None, newHighlight = - 1,
    localStorage =
      \<lparr>dino_leaderboard = None, dino_session_stats = None,
         dino_streak = None, dino_theme = None, dino_player_name = Some ''BOB''\<rparr>,
    playerNameRef = ''BOB'', isGameActiveRef = True, playerName = ''BOB'',
    gameState = PLAYING, inputName = '' bob '', firebase = []\<rparr>"
  by (simp add: sample_round_def run_def mount_def empty_storage_def loadStored_def
      handleNameSubmit_def name_bob onResults_arcade_def frame_landmarks avg_samples
      diff_samples Let_def)

subsection \<open>One camera callback\<close>

lemma gap_foldl:
  fixes f :: "'s \<Rightarrow> 'e \<Rightarrow> 's" and L :: "'s \<Rightarrow> int" and E :: "'s \<Rightarrow> int list"
  assumes stp: "\<And>s e. (L (f s e) = L s \<and> E (f s e) = E s) \<or>
                  (500 < L (f s e) - L s \<and> E (f s e) = E s @ [L (f s e)])"
  shows "\<exists>new. E (foldl f s es) = E s @ new \<and> sorted_wrt (\<lambda>a b. 500 < b - a) new \<and>
           (\<forall>t \<in> set new. 500 < t - L s) \<and>
           L (foldl f s es) = (if new = [] then L s else last new)"
proof (induction es arbitrary: s)
  case Nil
  show ?case by simp
next
  case (Cons e es)
  obtain new where n: "E (foldl f (f s e) es) = E (f s e) @ new"
    "sorted_wrt (\<lambda>a b. 500 < b - a) new" "\<forall>t \<in> set new. 500 < t - L (f s e)"
    "L (foldl f (f s e) es) = (if new = [] then L (f s e) else last new)"
    using Cons.IH[of "f s e"] by blast
  from stp[of s e] show ?case
  proof
    assume "L (f s e) = L s \<and> E (f s e) = E s"
    with n show ?thesis by (intro exI[of _ new]) simp
  next
    assume a: "500 < L (f s e) - L s \<and> E (f s e) = E s @ [L (f s e)]"
    have "\<forall>t \<in> set new. 500 < t - L s" using n(3) a by fastforce
    with n a show ?thesis by (intro exI[of _ "L (f s e) # new"]) auto
  qed
qed


lemma onResults_App_lost: "poseLandmarks r = None \<Longrightarrow> onResults_App r now s = Inr s"
  by (simp add: onResults_App_def)

lemma onResults_App_short:
  "poseLandmarks r = Some lms \<Longrightarrow> length lms \<le> 12 \<Longrightarrow> onResults_App r now s = Inl TypeError"
  by (simp add: onResults_App_def)

lemma onResults_App_first:
  "poseLandmarks r = Some lms \<Longrightarrow> 12 < length lms \<Longrightarrow> prevShoulderRef s = None \<Longrightarrow>
   onResults_App r now s = Inr (s\<lparr>prevShoulderRef := Some (avgShoulderY lms)\<rparr>)"
  by (simp add: onResults_App_def)

lemma onResults_App_next:
  "poseLandmarks r = Some lms \<Longrightarrow> 12 < length lms \<Longrightarrow> prevShoulderRef s = Some p \<Longrightarrow>
   onResults_App r now s =
     Inr (if fgt (fsub p (avgShoulderY lms)) lit_0_04 \<and> now - lastJumpTimeRef s > 500
          then s\<lparr>lastJumpTimeRef := now, jumpEvents := jumpEvents s @ [now],
                 prevShoulderRef := Some (avgShoulderY lms)\<rparr>
          else s\<lparr>prevShoulderRef := Some (avgShoulderY lms)\<rparr>)"
  by (simp add: onResults_App_def Let_def)

lemma onResults_arcade_lost: "poseLandmarks r = None \<Longrightarrow> onResults_arcade r now s = Inr s"
  by (simp add: onResults_arcade_def)

lemma onResults_arcade_first:
  "poseLandmarks r = Some lms \<Longrightarrow> 12 < length lms \<Longrightarrow> prevShoulderRef s = None \<Longrightarrow>
   onResults_arcade r now s = Inr (s\<lparr>prevShoulderRef := Some (avgShoulderY lms)\<rparr>)"
  by (simp add: onResults_arcade_def)

lemma onResults_arcade_next:
  "poseLandmarks r = Some lms \<Longrightarrow> 12 < length lms \<Longrightarrow> prevShoulderRef s = Some p \<Longrightarrow>
   onResults_arcade r now s =
     Inr (if isGameActiveRef s \<and> fgt (fsub p (avgShoulderY lms)) lit_0_04 \<and>
             now - lastJumpTimeRef s > 500
          then s\<lparr>lastJumpTimeRef := now, jumpEvents := jumpEvents s @ [now],
                 jumpCountRef := jumpCountRef s + 1,
                 prevShoulderRef := Some (avgShoulderY lms)\<rparr>
          else s\<lparr>prevShoulderRef := Some (avgShoulderY lms)\<rparr>)"
  by (simp add: onResults_arcade_def Let_def)

lemma onResults_local_lost: "poseLandmarks r = None \<Longrightarrow> onResults_local r now s = Inr s"
  by (simp add: onResults_local_def)

lemma onResults_local_first:
  "poseLandmarks r = Some lms \<Longrightarrow> 12 < length lms \<Longrightarrow> prevShoulderRef s = None \<Longrightarrow>
   onResults_local r now s = Inr (s\<lparr>prevShoulderRef := Some (avgShoulderY lms)\<rparr>)"
  by (simp add: onResults_local_def)

lemma onResults_local_next:
  "poseLandmarks r = Some lms \<Longrightarrow> 12 < length lms \<Longrightarrow> prevShoulderRef s = Some p \<Longrightarrow>
   onResults_local r now s =
     Inr (if fgt (fsub p (avgShoulderY lms)) lit_0_04 \<and> now - lastJumpTimeRef s > 500
          then s\<lparr>lastJumpTimeRef := now, jumpEvents := jumpEvents s @ [now],
                 jumpCountRef := jumpCountRef s + 1,
                 prevShoulderRef := Some (avgShoulderY lms)\<rparr>
          else s\<lparr>prevShoulderRef := Some (avgShoulderY lms)\<rparr>)"
  by (simp add: onResults_local_def Let_def)

lemma onResults_App_gap:
  "(case onResults_App r now s of Inl _ \<Rightarrow> s | Inr s' \<Rightarrow> s') = s' \<Longrightarrow>
   (lastJumpTimeRef s' = lastJumpTimeRef s \<and> jumpEvents s' = jumpEvents s) \<or>
   (500 < lastJumpTimeRef s' - lastJumpTimeRef s \<and> jumpEvents s' = jumpEvents s @ [lastJumpTimeRef s'])"
  by (auto simp: onResults_App_def Let_def split: option.splits if_splits)

lemma onResults_local_gap:
  "(case onResults_local r now s of Inl _ \<Rightarrow> s | Inr s' \<Rightarrow> s') = s' \<Longrightarrow>
   (lastJumpTimeRef s' = lastJumpTimeRef s \<and> jumpEvents s' = jumpEvents s) \<or>
   (500 < lastJumpTimeRef s' - lastJumpTimeRef s \<and> jumpEvents s' = jumpEvents s @ [lastJumpTimeRef s'])"
  by (auto simp: onResults_local_def Let_def split: option.splits if_splits)

lemma onResults_arcade_gap:
  "(case onResults_arcade r now s of Inl _ \<Rightarrow> s | Inr s' \<Rightarrow> s') = s' \<Longrightarrow>
   (lastJumpTimeRef s' = lastJumpTimeRef s \<and> jumpEvents s' = jumpEvents s) \<or>
   (500 < lastJumpTimeRef s' - lastJumpTimeRef s \<and> jumpEvents s' = jumpEvents s @ [lastJumpTimeRef s'])"
  by (auto simp: onResults_arcade_def Let_def split: option.splits if_splits)

lemma step_gap:
  "(lastJumpTimeRef (step s e) = lastJumpTimeRef s \<and> jumpEvents (step s e) = jumpEvents s) \<or>
   (500 < lastJumpTimeRef (step s e) - lastJumpTimeRef s \<and>
    jumpEvents (step s e) = jumpEvents s @ [lastJumpTimeRef (step s e)])"
proof (cases e)
  case (PoseResults r now)
  then show ?thesis using onResults_arcade_gap[where r = r and now = now and s = s and s' = "step s e"] by simp
next
  case (Snapshot d)
  then show ?thesis by (simp add: onValue_def split: option.splits)
qed (simp_all add: handleNameSubmit_def handleRetry_def handleMainMenu_def
       handleGameOver_arcade_def toggleTheme_def resetStats_def resetLeaderboard_def Let_def)

lemma feed_App_foldl:
  "feed_App s fs = foldl (\<lambda>s (r, now). case onResults_App r now s of Inl _ \<Rightarrow> s | Inr s' \<Rightarrow> s') s fs"
  by (induction s fs rule: feed_App.induct) simp_all

lemma feed_local_foldl:
  "feed_local s fs = foldl (\<lambda>s (r, now). case onResults_local r now s of Inl _ \<Rightarrow> s | Inr s' \<Rightarrow> s') s fs"
  by (induction s fs rule: feed_local.induct) simp_all

lemma feed_App_gap:
  "\<exists>new. jumpEvents (feed_App s fs) = jumpEvents s @ new \<and> sorted_wrt (\<lambda>a b. 500 < b - a) new \<and>
         (\<forall>t \<in> set new. 500 < t - lastJumpTimeRef s) \<and>
         lastJumpTimeRef (feed_App s fs) = (if new = [] then lastJumpTimeRef s else last new)"
  unfolding feed_App_foldl
  by (rule gap_foldl) (auto simp: onResults_App_gap split: prod.splits)

lemma feed_local_gap:
  "\<exists>new. jumpEvents (feed_local s fs) = jumpEvents s @ new \<and> sorted_wrt (\<lambda>a b. 500 < b - a) new \<and>
         (\<forall>t \<in> set new. 500 < t - lastJumpTimeRef s) \<and>
         lastJumpTimeRef (feed_local s fs) = (if new = [] then lastJumpTimeRef s else last new)"
  unfolding feed_local_foldl
  by (rule gap_foldl) (auto simp: onResults_local_gap split: prod.splits)

lemma run_gap:
  "\<exists>new. jumpEvents (run s es) = jumpEvents s @ new \<and> sorted_wrt (\<lambda>a b. 500 < b - a) new \<and>
         (\<forall>t \<in> set new. 500 < t - lastJumpTimeRef s) \<and>
         lastJumpTimeRef (run s es) = (if new = [] then lastJumpTimeRef s else last new)"
  unfolding run_def
  by (rule gap_foldl) (rule step_gap)

subsection \<open>The round controller\<close>

lemma trim_name_nonempty: "trim v \<noteq> [] \<Longrightarrow> take 10 (toUpperCase (trim v)) \<noteq> []"
  by (cases "trim v") (simp_all add: toUpperCase_def)

lemma round_inv_mount: "round_inv (mount st t0)"
  by (simp add: round_inv_def mount_def)

lemma round_inv_step: "round_inv s \<Longrightarrow> round_inv (step s e)"
proof (cases e)
  case (PoseResults r now)
  then show "round_inv s \<Longrightarrow> ?thesis"
    by (auto simp: round_inv_def onResults_arcade_def Let_def split: option.splits if_splits)
next
  case (NameSubmit now)
  then show "round_inv s \<Longrightarrow> ?thesis"
    using trim_name_nonempty[of "inputName s"]
    by (simp add: round_inv_def handleNameSubmit_def Let_def)
next
  case (Crash d n1 n2)
  then show "round_inv s \<Longrightarrow> ?thesis"
    by (auto simp: round_inv_def handleGameOver_arcade_def Let_def)
next
  case (Snapshot d)
  then show "round_inv s \<Longrightarrow> ?thesis"
    by (simp add: round_inv_def onValue_def split: option.splits)
qed (simp_all add: round_inv_def handleRetry_def handleMainMenu_def toggleTheme_def
       resetStats_def resetLeaderboard_def Let_def)

lemma round_inv_run: "round_inv s \<Longrightarrow> round_inv (run s es)"
  unfolding run_def by (induction es arbitrary: s) (simp_all add: round_inv_step)

lemma round_inv_reachable: "round_inv (run (mount st t0) es)"
  by (rule round_inv_run) (rule round_inv_mount)

lemma handleGameOver_arcade_inactive:
  "\<not> isGameActiveRef s \<Longrightarrow> handleGameOver_arcade d n1 n2 s = s"
  by (simp add: handleGameOver_arcade_def)

lemma handleGameOver_arcade_clears:
  "\<not> isGameActiveRef (handleGameOver_arcade d n1 n2 s)"
  by (simp add: handleGameOver_arcade_def Let_def)

lemma handleGameOver_arcade_twice:
  "handleGameOver_arcade d' m1 m2 (handleGameOver_arcade d n1 n2 s) = handleGameOver_arcade d n1 n2 s"
  by (rule handleGameOver_arcade_inactive) (rule handleGameOver_arcade_clears)

lemma handleGameOver_arcade_active:
  "isGameActiveRef s \<Longrightarrow>
   handleGameOver_arcade d n1 n2 s =
     s\<lparr>isGameActiveRef := False,
       lastGameScore := Some (engine_score d),
       firebase := firebase s @
         (if playerNameRef s \<noteq> []
          then [\<lparr>fb_name = playerNameRef s, fb_score = engine_score d, fb_timestamp = n2,
                 fb_jumps = jumpCountRef s,
                 fb_time = Math_round (real_of_int (n1 - roundStartRef s) / 1000),
                 fb_gameMode = ''arcade''\<rparr>]
          else []),
       sessionStats := sessionStats_updater (engine_score d) (jumpCountRef s)
                         (real_of_int (n1 - roundStartRef s) / 1000) (sessionStats s),
       streak := streak_updater (engine_score d) (streak s),
       localStorage := (localStorage s)
         \<lparr>dino_session_stats :=
            Some (sessionStats_updater (engine_score d) (jumpCountRef s)
                    (real_of_int (n1 - roundStartRef s) / 1000) (sessionStats s)),
          dino_streak := Some (streak_updater (engine_score d) (streak s))\<rparr>,
       gameState := GAME_OVER\<rparr>"
  by (simp add: handleGameOver_arcade_def Let_def)

lemma engine_score_unparsable:
  "digits = None \<or> (\<exists>ds. digits = Some ds \<and> parseInt (concat ds) = None) \<Longrightarrow> engine_score digits = 0"
  by (auto simp: engine_score_def)

lemma streak_updater_inv:
  "current prev \<le> best prev \<and> 0 \<le> best prev \<Longrightarrow>
   current (streak_updater sc prev) \<le> best (streak_updater sc prev) \<and> 0 \<le> best (streak_updater sc prev)"
  by (auto simp: streak_updater_def Let_def max_def)

lemma streak_updater_best_mono: "best prev \<le> best (streak_updater sc prev)"
  by (simp add: streak_updater_def Let_def)

lemma rounds_inv:
  "current st \<le> best st \<and> 0 \<le> best st \<Longrightarrow>
   current (rounds st scs) \<le> best (rounds st scs) \<and> 0 \<le> best (rounds st scs)"
  unfolding rounds_def by (induction scs arbitrary: st) (simp_all add: streak_updater_inv)

lemma rounds_best_mono: "best st \<le> best (rounds st scs)"
  unfolding rounds_def
proof (induction scs arbitrary: st)
  case Nil
  show ?case by simp
next
  case (Cons sc scs)
  have "best st \<le> best (streak_updater sc st)" by (rule streak_updater_best_mono)
  also have "\<dots> \<le> best (foldl (\<lambda>prev sc. streak_updater sc prev) (streak_updater sc st) scs)"
    by (rule Cons.IH)
  finally show ?case by simp
qed

lemma rounds_append: "rounds st (xs @ ys) = rounds (rounds st xs) ys"
  by (simp add: rounds_def)

subsection \<open>Sorting and searching the leaderboard\<close>

lemma sort_key_snoc:
  fixes f :: "'a \<Rightarrow> int"
  shows "sort_key f (xs @ [x]) =
         filter (\<lambda>y. f y \<le> f x) (sort_key f xs) @ x # filter (\<lambda>y. f x < f y) (sort_key f xs)"
    (is "_ = ?A @ x # ?B")
proof (rule properties_for_sort_key)
  have "mset xs = {#y \<in># mset xs. f y \<le> f x#} + {#y \<in># mset xs. f x < f y#}"
    using multiset_partition[of "mset xs" "\<lambda>y. f y \<le> f x"] by (simp add: not_le)
  then show "mset (?A @ x # ?B) = mset (xs @ [x])" by simp
next
  have s: "sorted (map f (sort_key f xs))" by simp
  have "sorted (map f ?A)" "sorted (map f ?B)"
    using s by (simp_all add: sorted_filter)
  then show "sorted (map f (?A @ x # ?B))"
    by (auto simp: sorted_append)
next
  fix k assume "k \<in> set (?A @ x # ?B)"
  have st: "filter (\<lambda>y. f k = f y) (sort_key f xs) = filter (\<lambda>y. f k = f y) xs"
    using sort_key_stable[of f "f k" xs] by (simp add: eq_commute)
  consider "f k < f x" | "f k = f x" | "f x < f k" by linarith
  then show "filter (\<lambda>y. f k = f y) (?A @ x # ?B) = filter (\<lambda>y. f k = f y) (xs @ [x])"
  proof cases
    case 1
    then have "(\<lambda>y. f y \<le> f x \<and> f k = f y) = (\<lambda>y. f k = f y)"
      "(\<lambda>y. f x < f y \<and> f k = f y) = (\<lambda>y. False)" by auto
    with 1 st show ?thesis by simp
  next
    case 2
    then have "(\<lambda>y. f y \<le> f x \<and> f k = f y) = (\<lambda>y. f k = f y)"
      "(\<lambda>y. f x < f y \<and> f k = f y) = (\<lambda>y. False)" by auto
    with 2 st show ?thesis by simp
  next
    case 3
    then have "(\<lambda>y. f y \<le> f x \<and> f k = f y) = (\<lambda>y. False)"
      "(\<lambda>y. f x < f y \<and> f k = f y) = (\<lambda>y. f k = f y)" by auto
    with 3 st show ?thesis by simp
  qed
qed

lemma length_filter_sort_key:
  "length (filter P (sort_key f xs)) = length (filter P xs)"
proof -
  have "size (mset (filter P (sort_key f xs))) = size (mset (filter P xs))" by simp
  then show ?thesis by (simp only: size_mset)
qed

lemma findIndex_range: "- 1 \<le> findIndex P xs \<and> findIndex P xs < int (length xs)"
  by (induction xs) (auto simp: Let_def)

lemma findIndex_none: "(findIndex P xs = - 1) = (\<forall>x \<in> set xs. \<not> P x)"
proof (induction xs)
  case Nil
  show ?case by simp
next
  case (Cons x xs)
  then show ?case using findIndex_range[of P xs] by (auto simp: Let_def)
qed

lemma findIndex_first:
  "0 \<le> findIndex P xs \<Longrightarrow>
   P (xs ! nat (findIndex P xs)) \<and> (\<forall>j < nat (findIndex P xs). \<not> P (xs ! j))"
proof (induction xs)
  case Nil
  then show ?case by simp
next
  case (Cons x xs)
  show ?case
  proof (cases "P x")
    case True
    then show ?thesis by simp
  next
    case False
    with Cons.prems have nn: "0 \<le> findIndex P xs" by (simp add: Let_def split: if_splits)
    then have eq: "findIndex P (x # xs) = findIndex P xs + 1" using False by (simp add: Let_def)
    have n: "nat (findIndex P xs + 1) = Suc (nat (findIndex P xs))" using nn by simp
    from Cons.IH[OF nn] False show ?thesis
      unfolding eq n by (auto simp: nth_Cons split: nat.splits)
  qed
qed

lemma findIndex_append_hit:
  "\<forall>x \<in> set xs. \<not> P x \<Longrightarrow> P y \<Longrightarrow> findIndex P (xs @ y # ys) = int (length xs)"
  by (induction xs) (auto simp: Let_def)

lemma findIndex_take:
  "findIndex P (take n xs) =
     (if 0 \<le> findIndex P xs \<and> findIndex P xs < int n then findIndex P xs else - 1)"
proof (induction xs arbitrary: n)
  case Nil
  show ?case by simp
next
  case (Cons x xs)
  show ?case
  proof (cases n)
    case 0
    then show ?thesis by simp
  next
    case (Suc m)
    show ?thesis using Cons.IH[of m] findIndex_range[of P xs]
      unfolding Suc by (auto simp: Let_def)
  qed
qed

lemma sort_by_score_snoc:
  "sort_by_score sc (xs @ [x]) =
     filter (\<lambda>y. sc x \<le> sc y) (sort_by_score sc xs) @ x # filter (\<lambda>y. sc y < sc x) (sort_by_score sc xs)"
  unfolding sort_by_score_def using sort_key_snoc[of "\<lambda>e. - sc e" xs x] by simp

lemma sort_by_score_sorted: "sorted_wrt (\<lambda>a b. sc b \<le> sc a) (sort_by_score sc xs)"
proof -
  have "sorted (map (\<lambda>e. - sc e) (sort_key (\<lambda>e. - sc e) xs))" by (rule sorted_sort_key)
  then show ?thesis by (simp add: sort_by_score_def sorted_map)
qed

lemma sort_by_score_mset: "mset (sort_by_score sc xs) = mset xs"
  by (simp add: sort_by_score_def)

lemma sort_by_score_stable:
  "filter (\<lambda>e. sc e = k) (sort_by_score sc xs) = filter (\<lambda>e. sc e = k) xs"
  using sort_key_stable[of "\<lambda>e. - sc e" "- k" xs] by (simp add: sort_by_score_def)

lemma updated_sorted: "sorted_wrt (\<lambda>a b. score b \<le> score a) (fst (leaderboard_updater entry prev))"
  by (simp add: leaderboard_updater_def Let_def sort_by_score_sorted sorted_wrt_take)

lemma updated_length: "length (fst (leaderboard_updater entry prev)) = min 5 (length prev + 1)"
proof -
  have "length (sort_by_score score (prev @ [entry])) = length prev + 1"
    using arg_cong[OF sort_by_score_mset[of score "prev @ [entry]"], of size] by simp
  then show ?thesis by (simp add: leaderboard_updater_def Let_def min_def)
qed

lemma updated_highest:
  "\<exists>dropped. mset (fst (leaderboard_updater entry prev)) + mset dropped = mset (prev @ [entry]) \<and>
             (\<forall>d \<in> set dropped. \<forall>u \<in> set (fst (leaderboard_updater entry prev)). score d \<le> score u)"
proof -
  let ?S = "sort_by_score score (prev @ [entry])"
  have "sorted_wrt (\<lambda>a b. score b \<le> score a) (take 5 ?S @ drop 5 ?S)"
    by (simp add: sort_by_score_sorted)
  then have le: "\<forall>u \<in> set (take 5 ?S). \<forall>d \<in> set (drop 5 ?S). score d \<le> score u"
    unfolding sorted_wrt_append by blast
  have "mset (take 5 ?S) + mset (drop 5 ?S) = mset ?S"
    by (simp flip: mset_append)
  then have "mset (take 5 ?S) + mset (drop 5 ?S) = mset (prev @ [entry])"
    by (simp only: sort_by_score_mset)
  with le show ?thesis
    unfolding leaderboard_updater_def Let_def fst_conv by blast
qed

lemma updated_stable:
  "prefix (filter (\<lambda>e. score e = k) (fst (leaderboard_updater entry prev)))
          (filter (\<lambda>e. score e = k) (prev @ [entry]))"
proof -
  let ?S = "sort_by_score score (prev @ [entry])"
  have "prefix (filter (\<lambda>e. score e = k) (take 5 ?S)) (filter (\<lambda>e. score e = k) ?S)"
    by (rule filter_mono_prefix) (rule take_is_prefix)
  then show ?thesis
    by (simp only: sort_by_score_stable leaderboard_updater_def Let_def fst_conv)
qed

lemma idx_none:
  "(snd (leaderboard_updater entry prev) = - 1) =
   (\<forall>e \<in> set (fst (leaderboard_updater entry prev)). \<not> (date e = date entry \<and> score e = score entry))"
  by (simp add: leaderboard_updater_def Let_def findIndex_none)

lemma idx_first:
  assumes "0 \<le> snd (leaderboard_updater entry prev)"
  shows "nat (snd (leaderboard_updater entry prev)) < length (fst (leaderboard_updater entry prev)) \<and>
         date (fst (leaderboard_updater entry prev) ! nat (snd (leaderboard_updater entry prev))) = date entry \<and>
         score (fst (leaderboard_updater entry prev) ! nat (snd (leaderboard_updater entry prev))) = score entry \<and>
         (\<forall>j < nat (snd (leaderboard_updater entry prev)).
            \<not> (date (fst (leaderboard_updater entry prev) ! j) = date entry \<and>
               score (fst (leaderboard_updater entry prev) ! j) = score entry))"
proof -
  let ?P = "\<lambda>e. date e = date entry \<and> score e = score entry"
  let ?U = "take 5 (sort_by_score score (prev @ [entry]))"
  have i: "0 \<le> findIndex ?P ?U" using assms by (simp add: leaderboard_updater_def Let_def)
  from findIndex_first[OF i] findIndex_range[of ?P ?U] i
  show ?thesis unfolding leaderboard_updater_def Let_def fst_conv snd_conv
    by (metis (no_types, lifting) nat_less_iff)
qed

lemma idx_rank:
  assumes fresh: "\<forall>e \<in> set prev. \<not> (date e = date entry \<and> score e = score entry)"
  defines "p \<equiv> length (filter (\<lambda>e. score entry \<le> score e) prev)"
  shows "snd (leaderboard_updater entry prev) = (if p < 5 then int p else - 1)"
    and "p < 5 \<Longrightarrow> fst (leaderboard_updater entry prev) ! p = entry"
    and "5 \<le> p \<Longrightarrow> entry \<notin> set (fst (leaderboard_updater entry prev))"
proof -
  let ?P = "\<lambda>e. date e = date entry \<and> score e = score entry"
  let ?A = "filter (\<lambda>y. score entry \<le> score y) (sort_by_score score prev)"
  let ?B = "filter (\<lambda>y. score y < score entry) (sort_by_score score prev)"
  have S: "sort_by_score score (prev @ [entry]) = ?A @ entry # ?B"
    by (rule sort_by_score_snoc)
  have lenA: "length ?A = p"
    unfolding p_def sort_by_score_def by (rule length_filter_sort_key)
  have "set (sort_by_score score prev) = set prev"
    using sort_by_score_mset[of score prev] by (metis set_mset_mset)
  then have noA: "\<forall>e \<in> set ?A. \<not> ?P e" using fresh by auto
  have fi: "findIndex ?P (?A @ entry # ?B) = int p"
    using findIndex_append_hit[OF noA, of entry ?B] lenA by simp
  have U: "fst (leaderboard_updater entry prev) = take 5 (?A @ entry # ?B)"
    by (simp only: leaderboard_updater_def Let_def fst_conv S)
  have "snd (leaderboard_updater entry prev) = findIndex ?P (take 5 (?A @ entry # ?B))"
    by (simp only: leaderboard_updater_def Let_def snd_conv S)
  also have "\<dots> = (if 0 \<le> int p \<and> int p < int 5 then int p else - 1)"
    by (simp only: findIndex_take fi)
  finally show "snd (leaderboard_updater entry prev) = (if p < 5 then int p else - 1)"
    by simp
  show "p < 5 \<Longrightarrow> fst (leaderboard_updater entry prev) ! p = entry"
  proof -
    assume "p < 5"
    then have "take 5 (?A @ entry # ?B) ! p = (?A @ entry # ?B) ! p" by (rule nth_take)
    also have "\<dots> = entry" using nth_append_length[of ?A entry ?B] by (simp only: lenA)
    finally show ?thesis by (simp only: U)
  qed
  show "5 \<le> p \<Longrightarrow> entry \<notin> set (fst (leaderboard_updater entry prev))"
  proof -
    assume "5 \<le> p"
    then have "take 5 (?A @ entry # ?B) = take 5 ?A" using lenA by simp
    moreover have "entry \<notin> set ?A" using noA by auto
    ultimately show ?thesis
      unfolding U by (metis in_set_takeD)
  qed
qed

subsection \<open>The claims\<close>

text \<open>
  Claim C1, as the code has it. In the arcade revision, in every state the component can
  reach, two calls of the game-over handler in immediate succession (whatever score and
  clock the second one sees) leave the state the first call produced: the handler returns
  the state unchanged when \<open>isGameActiveRef\<close> is off, and a call on an active round clears
  the flag. So an active round updates the session statistics once (one more round
  played), the streak once, and pushes one leaderboard record; a call on an inactive round
  changes nothing. The revision with the local leaderboard has no such flag: there every
  call counts a round.
\<close>

theorem game_over_twice_updates_once:
  assumes "s = run (mount st mt) es"
    and "s2 = handleGameOver_arcade d' tr' tp' (handleGameOver_arcade d tr tp s)"
  shows "s2 = handleGameOver_arcade d tr tp s \<and> \<not> isGameActiveRef s2 \<and>
         (if isGameActiveRef s
          then sessionStats s2 =
                 sessionStats_updater (engine_score d) (jumpCountRef s)
                   (real_of_int (tr - roundStartRef s) / 1000) (sessionStats s) \<and>
               roundsPlayed (sessionStats s2) = roundsPlayed (sessionStats s) + 1 \<and>
               streak s2 = streak_updater (engine_score d) (streak s) \<and>
               firebase s2 = firebase s @
                 [\<lparr>fb_name = playerNameRef s, fb_score = engine_score d, fb_timestamp = tp,
                   fb_jumps = jumpCountRef s,
                   fb_time = Math_round (real_of_int (tr - roundStartRef s) / 1000),
                   fb_gameMode = ''arcade''\<rparr>] \<and>
               gameState s2 = GAME_OVER
          else s2 = s)"
proof -
  have tw: "s2 = handleGameOver_arcade d tr tp s"
    unfolding assms(2) by (rule handleGameOver_arcade_twice)
  have off: "\<not> isGameActiveRef s2" unfolding tw by (rule handleGameOver_arcade_clears)
  show ?thesis
  proof (cases "isGameActiveRef s")
    case False
    then show ?thesis using tw off by (simp add: handleGameOver_arcade_inactive)
  next
    case True
    have "round_inv s" unfolding assms(1) by (rule round_inv_reachable)
    with True have name: "playerNameRef s \<noteq> []" by (auto simp: round_inv_def)
    show ?thesis
      using True off name unfolding tw
      by (simp add: handleGameOver_arcade_active[OF True] sessionStats_updater_def)
  qed
qed

text \<open>The sample round, ended at 42800 ms and notified again 100 ms later.\<close>

theorem game_over_twice_updates_once_witness:
  "isGameActiveRef sample_round \<and>
   handleGameOver_arcade sample_digits 42900 42901
     (handleGameOver_arcade sample_digits 42800 42801 sample_round) =
   handleGameOver_arcade sample_digits 42800 42801 sample_round \<and>
   sessionStats (handleGameOver_arcade sample_digits 42900 42901
     (handleGameOver_arcade sample_digits 42800 42801 sample_round)) =
     \<lparr>totalJumps = 1, totalPlayTime = 423 / 10, totalScore = 150, roundsPlayed = 1\<rparr> \<and>
   streak (handleGameOver_arcade sample_digits 42900 42901
     (handleGameOver_arcade sample_digits 42800 42801 sample_round)) =
     \<lparr>current = 1, best = 1, lastScore = 150\<rparr> \<and>
   firebase (handleGameOver_arcade sample_digits 42900 42901
     (handleGameOver_arcade sample_digits 42800 42801 sample_round)) =
     [\<lparr>fb_name = ''BOB'', fb_score = 150, fb_timestamp = 42801, fb_jumps = 1, fb_time = 42,
       fb_gameMode = ''arcade''\<rparr>]"
proof -
  have f: "isGameActiveRef sample_round" "jumpCountRef sample_round = 1"
    "roundStartRef sample_round = 500" "playerNameRef sample_round = ''BOB''"
    "firebase sample_round = []"
    "sessionStats sample_round =
       \<lparr>totalJumps = 0, totalPlayTime = 0, totalScore = 0, roundsPlayed = 0\<rparr>"
    "streak sample_round = \<lparr>current = 0, best = 0, lastScore = 0\<rparr>"
    by (simp_all add: sample_round_eq)
  show ?thesis
    using game_over_twice_updates_once[OF sample_round_def refl,
        of sample_digits 42900 42901 sample_digits 42800 42801]
    by (auto simp: f engine_score_sample sessionStats_updater_def streak_updater_def
        Math_round_def)
qed

text \<open>
  Claim C1 as stated fails on the revision with the local leaderboard (\<open>part_000\<close>,
  lines 690-752): two calls in the same millisecond count two rounds, add the score twice,
  reset the streak the first call had started, and insert two leaderboard entries.
\<close>

theorem game_over_local_twice_counts_twice:
  "roundsPlayed (sessionStats (handleGameOver_local sample_digits 42300 42300 42300
     (handleGameOver_local sample_digits 42300 42300 42300 (mount_local empty_storage 0)))) = 2 \<and>
   totalScore (sessionStats (handleGameOver_local sample_digits 42300 42300 42300
     (handleGameOver_local sample_digits 42300 42300 42300 (mount_local empty_storage 0)))) = 300 \<and>
   streak (handleGameOver_local sample_digits 42300 42300 42300
     (handleGameOver_local sample_digits 42300 42300 42300 (mount_local empty_storage 0))) =
     \<lparr>current = 0, best = 1, lastScore = 150\<rparr> \<and>
   map score (leaderboard (handleGameOver_local sample_digits 42300 42300 42300
     (handleGameOver_local sample_digits 42300 42300 42300 (mount_local empty_storage 0)))) =
     [150, 150]"
  by (simp add: handleGameOver_local_def mount_local_def empty_storage_def loadStored_def
      engine_score_sample sessionStats_updater_def streak_updater_def leaderboard_updater_def
      sort_by_score_def Let_def)

text \<open>
  Claim C2, as the code has it. For a frame with both shoulder landmarks and a stored
  previous height \<open>p\<close>, the callback emits one jump event, stamped with the clock reading,
  exactly when the double \<open>p - avgShoulderY\<close> is strictly greater than the double \<open>0.04\<close>
  and strictly more than 500 ms have passed since \<open>lastJumpTimeRef\<close>; the arcade revision
  requires in addition that the round is active. Otherwise the event list is unchanged. A
  computed difference equal to the double 0.04 never emits; one equal to the double 0.0401
  emits once the cooldown has passed (and, in the arcade revision, the round is active).
\<close>

theorem jump_iff_threshold_cooldown_and_active:
  assumes "poseLandmarks r = Some lms" and "12 < length lms"
  shows "(prevShoulderRef s = Some p \<longrightarrow>
           (\<exists>s'. onResults_App r now s = Inr s' \<and>
              jumpEvents s' =
                (if fgt (fsub p (avgShoulderY lms)) lit_0_04 \<and> 500 < now - lastJumpTimeRef s
                 then jumpEvents s @ [now] else jumpEvents s))) \<and>
         (prevShoulderRef a = Some p \<longrightarrow>
           (\<exists>a'. onResults_arcade r now a = Inr a' \<and>
              jumpEvents a' =
                (if isGameActiveRef a \<and> fgt (fsub p (avgShoulderY lms)) lit_0_04 \<and>
                    500 < now - lastJumpTimeRef a
                 then jumpEvents a @ [now] else jumpEvents a))) \<and>
         (prevShoulderRef u = Some p \<longrightarrow>
           (\<exists>u'. onResults_local r now u = Inr u' \<and>
              jumpEvents u' =
                (if fgt (fsub p (avgShoulderY lms)) lit_0_04 \<and> 500 < now - lastJumpTimeRef u
                 then jumpEvents u @ [now] else jumpEvents u))) \<and>
         (prevShoulderRef s = Some p \<and> feq (fsub p (avgShoulderY lms)) lit_0_04 \<longrightarrow>
           (\<exists>s'. onResults_App r now s = Inr s' \<and> jumpEvents s' = jumpEvents s)) \<and>
         (prevShoulderRef s = Some p \<and> feq (fsub p (avgShoulderY lms)) lit_0_0401 \<and>
          500 < now - lastJumpTimeRef s \<longrightarrow>
           (\<exists>s'. onResults_App r now s = Inr s' \<and> jumpEvents s' = jumpEvents s @ [now])) \<and>
         (prevShoulderRef a = Some p \<and> feq (fsub p (avgShoulderY lms)) lit_0_04 \<longrightarrow>
           (\<exists>a'. onResults_arcade r now a = Inr a' \<and> jumpEvents a' = jumpEvents a)) \<and>
         (prevShoulderRef a = Some p \<and> feq (fsub p (avgShoulderY lms)) lit_0_0401 \<and>
          500 < now - lastJumpTimeRef a \<and> isGameActiveRef a \<longrightarrow>
           (\<exists>a'. onResults_arcade r now a = Inr a' \<and> jumpEvents a' = jumpEvents a @ [now]))"
  using assms feq_not_fgt[of "fsub p (avgShoulderY lms)" lit_0_04]
    feq_lit_0_0401_fgt[of "fsub p (avgShoulderY lms)"]
  by (auto simp: onResults_App_next onResults_arcade_next onResults_local_next)

text \<open>
  Shoulders at height 0, 600 ms after the last jump of the sample round. From a previous
  height of the double 0.04 the difference is that double and nothing is emitted; from
  the double 0.0401 both revisions emit.
\<close>

theorem jump_iff_threshold_cooldown_and_active_witness:
  "poseLandmarks (frame (Dyadic 0 0)) =
     Some (replicate 33 \<lparr>lm_x = Dyadic 1 (- 1), lm_y = Dyadic 0 0\<rparr>) \<and>
   12 < length (replicate 33 \<lparr>lm_x = Dyadic 1 (- 1), lm_y = Dyadic 0 0\<rparr>) \<and>
   feq (fsub lit_0_04 (avgShoulderY (replicate 33 \<lparr>lm_x = Dyadic 1 (- 1), lm_y = Dyadic 0 0\<rparr>)))
     lit_0_04 \<and>
   feq (fsub lit_0_0401 (avgShoulderY (replicate 33 \<lparr>lm_x = Dyadic 1 (- 1), lm_y = Dyadic 0 0\<rparr>)))
     lit_0_0401 \<and>
   isGameActiveRef sample_round \<and> 500 < 2600 - lastJumpTimeRef sample_round \<and>
   (\<exists>s'. onResults_App (frame (Dyadic 0 0)) 2600
            (mount_App\<lparr>prevShoulderRef := Some lit_0_04\<rparr>) = Inr s' \<and>
         jumpEvents s' = []) \<and>
   (\<exists>a'. onResults_arcade (frame (Dyadic 0 0)) 2600
            (sample_round\<lparr>prevShoulderRef := Some lit_0_04\<rparr>) = Inr a' \<and>
         jumpEvents a' = [2000]) \<and>
   (\<exists>s'. onResults_App (frame (Dyadic 0 0)) 2600
            (mount_App\<lparr>prevShoulderRef := Some lit_0_0401\<rparr>) = Inr s' \<and>
         jumpEvents s' = [2600]) \<and>
   (\<exists>a'. onResults_arcade (frame (Dyadic 0 0)) 2600
            (sample_round\<lparr>prevShoulderRef := Some lit_0_0401\<rparr>) = Inr a' \<and>
         jumpEvents a' = [2000, 2600])"
proof -
  have l: "poseLandmarks (frame (Dyadic 0 0)) =
      Some (replicate 33 \<lparr>lm_x = Dyadic 1 (- 1), lm_y = Dyadic 0 0\<rparr>)"
    by (rule frame_landmarks)
  have n: "12 < length (replicate 33 \<lparr>lm_x = Dyadic 1 (- 1), lm_y = Dyadic 0 0\<rparr>)" by simp
  have f: "isGameActiveRef sample_round" "lastJumpTimeRef sample_round = 2000"
    "jumpEvents sample_round = [2000]"
    by (simp_all add: sample_round_eq)
  show ?thesis
    using jump_iff_threshold_cooldown_and_active[OF l n,
        where s = "mount_App\<lparr>prevShoulderRef := Some lit_0_04\<rparr>" and p = lit_0_04
          and now = 2600 and a = "sample_round\<lparr>prevShoulderRef := Some lit_0_04\<rparr>"
          and u = "sample_round\<lparr>prevShoulderRef := Some lit_0_04\<rparr>"]
      jump_iff_threshold_cooldown_and_active[OF l n,
        where s = "mount_App\<lparr>prevShoulderRef := Some lit_0_0401\<rparr>" and p = lit_0_0401
          and now = 2600 and a = "sample_round\<lparr>prevShoulderRef := Some lit_0_0401\<rparr>"
          and u = "sample_round\<lparr>prevShoulderRef := Some lit_0_0401\<rparr>"]
    by (simp add: l f avg_samples diff_samples mount_App_def)
qed

text \<open>
  Claim C2 as stated fails on the arcade revision: before the player has started a round,
  a sample with a previous sample, a difference of 0.125 and an elapsed cooldown emits
  nothing.
\<close>

theorem inactive_round_blocks_jump:
  "prevShoulderRef menu_idle = Some (Dyadic 2 (- 2)) \<and>
   fgt (fsub (Dyadic 2 (- 2))
          (avgShoulderY (replicate 33 \<lparr>lm_x = Dyadic 1 (- 1), lm_y = Dyadic 3 (- 3)\<rparr>)))
     lit_0_04 \<and>
   500 < 1000 - lastJumpTimeRef menu_idle \<and>
   \<not> isGameActiveRef menu_idle \<and>
   jumpEvents menu_idle = [] \<and>
   onResults_arcade (frame (Dyadic 3 (- 3))) 1000 menu_idle =
     Inr (menu_idle\<lparr>prevShoulderRef := Some (Dyadic 6 (- 4))\<rparr>) \<and>
   jumpEvents (menu_idle\<lparr>prevShoulderRef := Some (Dyadic 6 (- 4))\<rparr>) = []"
  by (simp add: menu_idle_def run_def mount_def empty_storage_def loadStored_def
      onResults_arcade_def frame_landmarks avg_samples diff_samples Let_def)

text \<open>
  Claim C3. The statistics updater returns the four sums \<open>totalJumps + jumps\<close>,
  \<open>totalPlayTime + roundTime\<close>, \<open>totalScore + score\<close>, \<open>roundsPlayed + 1\<close>; empty statistics
  and the round \<open>{score: 150, jumps: 6, roundTime: 42.3}\<close> give \<open>{6, 42.3, 150, 1}\<close>; and
  the game-over handler of an active round applies it to the jump count, the elapsed
  seconds and the engine's score, storing the same value under \<open>dino_session_stats\<close>.
\<close>

theorem stats_applyRound:
  "sessionStats_updater sc jmps roundTime prev =
     \<lparr>totalJumps = totalJumps prev + jmps, totalPlayTime = totalPlayTime prev + roundTime,
      totalScore = totalScore prev + sc, roundsPlayed = roundsPlayed prev + 1\<rparr> \<and>
   sessionStats_updater 150 6 (423 / 10)
       \<lparr>totalJumps = 0, totalPlayTime = 0, totalScore = 0, roundsPlayed = 0\<rparr> =
     \<lparr>totalJumps = 6, totalPlayTime = 423 / 10, totalScore = 150, roundsPlayed = 1\<rparr> \<and>
   (isGameActiveRef s \<longrightarrow>
      sessionStats (handleGameOver_arcade d tr tp s) =
        \<lparr>totalJumps = totalJumps (sessionStats s) + jumpCountRef s,
         totalPlayTime = totalPlayTime (sessionStats s) + real_of_int (tr - roundStartRef s) / 1000,
         totalScore = totalScore (sessionStats s) + engine_score d,
         roundsPlayed = roundsPlayed (sessionStats s) + 1\<rparr> \<and>
      dino_session_stats (localStorage (handleGameOver_arcade d tr tp s)) =
        Some (sessionStats (handleGameOver_arcade d tr tp s)))"
  by (simp add: handleGameOver_arcade_active sessionStats_updater_def)

text \<open>The sample round, ended 42.3 s after its start.\<close>

theorem stats_applyRound_witness:
  "isGameActiveRef sample_round \<and>
   sessionStats (handleGameOver_arcade sample_digits 42800 42801 sample_round) =
     \<lparr>totalJumps = 1, totalPlayTime = 423 / 10, totalScore = 150, roundsPlayed = 1\<rparr> \<and>
   dino_session_stats (localStorage (handleGameOver_arcade sample_digits 42800 42801 sample_round)) =
     Some \<lparr>totalJumps = 1, totalPlayTime = 423 / 10, totalScore = 150, roundsPlayed = 1\<rparr>"
proof -
  have f: "isGameActiveRef sample_round" "jumpCountRef sample_round = 1"
    "roundStartRef sample_round = 500"
    "sessionStats sample_round =
       \<lparr>totalJumps = 0, totalPlayTime = 0, totalScore = 0, roundsPlayed = 0\<rparr>"
    by (simp_all add: sample_round_eq)
  show ?thesis
    using stats_applyRound[where s = sample_round and d = sample_digits and tr = 42800
        and tp = 42801 and sc = 0 and jmps = 0 and roundTime = 0
        and prev = "\<lparr>totalJumps = 0, totalPlayTime = 0, totalScore = 0, roundsPlayed = 0\<rparr>"]
    by (auto simp: f engine_score_sample)
qed

text \<open>
  Claim C4. If \<open>lastScore\<close> is 0 or the new score exceeds it, \<open>current\<close> grows by one and
  \<open>best\<close> becomes the maximum of \<open>best\<close> and the new \<open>current\<close>; otherwise \<open>current\<close>
  becomes 0 and \<open>best\<close> is kept; \<open>lastScore\<close> becomes the new score either way. The two
  scenarios of the specification are instances, and the game-over handler of an active
  round applies the updater to the engine's score and stores the result.
\<close>

theorem streak_applyRound:
  "(lastScore prev = 0 \<or> lastScore prev < sc \<longrightarrow>
      streak_updater sc prev =
        \<lparr>current = current prev + 1, best = max (best prev) (current prev + 1), lastScore = sc\<rparr>) \<and>
   (\<not> (lastScore prev = 0 \<or> lastScore prev < sc) \<longrightarrow>
      streak_updater sc prev = \<lparr>current = 0, best = best prev, lastScore = sc\<rparr>) \<and>
   lastScore (streak_updater sc prev) = sc \<and>
   streak_updater 90 \<lparr>current = 2, best = 3, lastScore = 80\<rparr> =
     \<lparr>current = 3, best = 3, lastScore = 90\<rparr> \<and>
   streak_updater 50 \<lparr>current = 2, best = 3, lastScore = 80\<rparr> =
     \<lparr>current = 0, best = 3, lastScore = 50\<rparr> \<and>
   (isGameActiveRef s \<longrightarrow>
      streak (handleGameOver_arcade d tr tp s) = streak_updater (engine_score d) (streak s) \<and>
      dino_streak (localStorage (handleGameOver_arcade d tr tp s)) =
        Some (streak (handleGameOver_arcade d tr tp s)))"
  by (simp add: handleGameOver_arcade_active streak_updater_def Let_def)

text \<open>The first round of a session improves; repeating the same score does not.\<close>

theorem streak_applyRound_witness:
  "(lastScore \<lparr>current = 0, best = 0, lastScore = 0\<rparr> = 0 \<or>
      lastScore \<lparr>current = 0, best = 0, lastScore = 0\<rparr> < 150) \<and>
   isGameActiveRef sample_round \<and>
   streak (handleGameOver_arcade sample_digits 42800 42801 sample_round) =
     \<lparr>current = 1, best = 1, lastScore = 150\<rparr> \<and>
   \<not> (lastScore \<lparr>current = 1, best = 1, lastScore = 150\<rparr> = 0 \<or>
      lastScore \<lparr>current = 1, best = 1, lastScore = 150\<rparr> < 150) \<and>
   streak_updater 150 \<lparr>current = 1, best = 1, lastScore = 150\<rparr> =
     \<lparr>current = 0, best = 1, lastScore = 150\<rparr>"
proof -
  have f: "isGameActiveRef sample_round"
    "streak sample_round = \<lparr>current = 0, best = 0, lastScore = 0\<rparr>"
    by (simp_all add: sample_round_eq)
  show ?thesis
    using streak_applyRound[where s = sample_round and d = sample_digits and tr = 42800
        and tp = 42801 and sc = 150 and prev = "\<lparr>current = 0, best = 0, lastScore = 0\<rparr>"]
      streak_applyRound[where s = sample_round and d = sample_digits and tr = 42800
        and tp = 42801 and sc = 150 and prev = "\<lparr>current = 1, best = 1, lastScore = 150\<rparr>"]
    by (auto simp: f engine_score_sample)
qed

text \<open>
  What the leaderboard updater computes. For every prior list and new entry, the new list
  is ordered by descending score, has \<open>min 5 (length prev + 1)\<close> entries, consists of
  entries of the prior list and the new entry with every dropped one scoring no higher than
  any kept one, and keeps entries of equal score in arrival order. The index handed to
  \<open>setNewHighlight\<close> is the first position in the new list whose date and score are those
  of the new entry, \<open>-1\<close> if there is none. When no prior entry has both the date and the
  score of the new entry, this is the new entry's own position, namely the number of prior
  entries scoring at least as high, or \<open>-1\<close> when that number is 5 or more and the entry
  has been cut off. The handler stores the list and the index in the state, and the list
  in \<open>localStorage\<close>.
\<close>

lemma leaderboard_updater_computes:
  assumes "leaderboard_updater entry prev = (updated, idx)"
  shows "sorted_wrt (\<lambda>e1 e2. score e2 \<le> score e1) updated \<and>
         length updated = min 5 (length prev + 1) \<and>
         (\<exists>dropped. mset updated + mset dropped = mset (prev @ [entry]) \<and>
            (\<forall>d \<in> set dropped. \<forall>u \<in> set updated. score d \<le> score u)) \<and>
         (\<forall>k. prefix (filter (\<lambda>e. score e = k) updated)
                       (filter (\<lambda>e. score e = k) (prev @ [entry]))) \<and>
         ((idx = - 1) =
            (\<forall>e \<in> set updated. \<not> (date e = date entry \<and> score e = score entry))) \<and>
         (0 \<le> idx \<longrightarrow>
            nat idx < length updated \<and>
            date (updated ! nat idx) = date entry \<and> score (updated ! nat idx) = score entry \<and>
            (\<forall>j < nat idx. \<not> (date (updated ! j) = date entry \<and>
                                score (updated ! j) = score entry))) \<and>
         ((\<forall>e \<in> set prev. \<not> (date e = date entry \<and> score e = score entry)) \<longrightarrow>
            idx = (if length (filter (\<lambda>e. score entry \<le> score e) prev) < 5
                   then int (length (filter (\<lambda>e. score entry \<le> score e) prev)) else - 1) \<and>
            (0 \<le> idx \<longrightarrow> updated ! nat idx = entry) \<and>
            (idx = - 1 \<longrightarrow> entry \<notin> set updated)) \<and>
         leaderboard (handleGameOver_local d tr te tz s) =
           fst (leaderboard_updater
                  \<lparr>score = engine_score d, date = te, jumps = jumpCountRef s,
                   time = Math_round (real_of_int (tr - roundStartRef s) / 1000)\<rparr>
                  (leaderboard s)) \<and>
         newHighlight (handleGameOver_local d tr te tz s) =
           snd (leaderboard_updater
                  \<lparr>score = engine_score d, date = te, jumps = jumpCountRef s,
                   time = Math_round (real_of_int (tr - roundStartRef s) / 1000)\<rparr>
                  (leaderboard s)) \<and>
         dino_leaderboard (localStorage (handleGameOver_local d tr te tz s)) =
           Some (leaderboard (handleGameOver_local d tr te tz s))"
proof -
  have u: "updated = fst (leaderboard_updater entry prev)"
    and i: "idx = snd (leaderboard_updater entry prev)"
    using assms by simp_all
  have 1: "sorted_wrt (\<lambda>e1 e2. score e2 \<le> score e1) updated"
    unfolding u by (rule updated_sorted)
  have 2: "length updated = min 5 (length prev + 1)"
    unfolding u by (rule updated_length)
  have 3: "\<exists>dropped. mset updated + mset dropped = mset (prev @ [entry]) \<and>
            (\<forall>d \<in> set dropped. \<forall>u \<in> set updated. score d \<le> score u)"
    unfolding u by (rule updated_highest)
  have 4: "\<forall>k. prefix (filter (\<lambda>e. score e = k) updated)
                       (filter (\<lambda>e. score e = k) (prev @ [entry]))"
    unfolding u by (intro allI updated_stable)
  have 5: "(idx = - 1) =
            (\<forall>e \<in> set updated. \<not> (date e = date entry \<and> score e = score entry))"
    unfolding u i by (rule idx_none)
  have 6: "0 \<le> idx \<longrightarrow>
            nat idx < length updated \<and>
            date (updated ! nat idx) = date entry \<and> score (updated ! nat idx) = score entry \<and>
            (\<forall>j < nat idx. \<not> (date (updated ! j) = date entry \<and>
                                score (updated ! j) = score entry))"
    unfolding u i using idx_first[of entry prev] by blast
  have 7: "(\<forall>e \<in> set prev. \<not> (date e = date entry \<and> score e = score entry)) \<longrightarrow>
            idx = (if length (filter (\<lambda>e. score entry \<le> score e) prev) < 5
                   then int (length (filter (\<lambda>e. score entry \<le> score e) prev)) else - 1) \<and>
            (0 \<le> idx \<longrightarrow> updated ! nat idx = entry) \<and>
            (idx = - 1 \<longrightarrow> entry \<notin> set updated)"
  proof
    assume fresh: "\<forall>e \<in> set prev. \<not> (date e = date entry \<and> score e = score entry)"
    let ?p = "length (filter (\<lambda>e. score entry \<le> score e) prev)"
    have a: "idx = (if ?p < 5 then int ?p else - 1)"
      unfolding i by (rule idx_rank(1)[OF fresh])
    have b: "0 \<le> idx \<longrightarrow> updated ! nat idx = entry"
      using a idx_rank(2)[OF fresh] unfolding u by (auto split: if_splits)
    have c: "idx = - 1 \<longrightarrow> entry \<notin> set updated"
      using a idx_rank(3)[OF fresh] unfolding u by (auto split: if_splits)
    from a b c show "idx = (if ?p < 5 then int ?p else - 1) \<and>
            (0 \<le> idx \<longrightarrow> updated ! nat idx = entry) \<and>
            (idx = - 1 \<longrightarrow> entry \<notin> set updated)" by blast
  qed
  have 8: "leaderboard (handleGameOver_local d tr te tz s) =
           fst (leaderboard_updater
                  \<lparr>score = engine_score d, date = te, jumps = jumpCountRef s,
                   time = Math_round (real_of_int (tr - roundStartRef s) / 1000)\<rparr>
                  (leaderboard s)) \<and>
         newHighlight (handleGameOver_local d tr te tz s) =
           snd (leaderboard_updater
                  \<lparr>score = engine_score d, date = te, jumps = jumpCountRef s,
                   time = Math_round (real_of_int (tr - roundStartRef s) / 1000)\<rparr>
                  (leaderboard s)) \<and>
         dino_leaderboard (localStorage (handleGameOver_local d tr te tz s)) =
           Some (leaderboard (handleGameOver_local d tr te tz s))"
    by (simp add: handleGameOver_local_def Let_def)
  from 1 2 3 4 5 6 7 8 show ?thesis by blast
qed

lemma sample_board_insert:
  "leaderboard_updater \<lparr>score = 85, date = 6, jumps = 3, time = 25\<rparr> sample_board =
     ([\<lparr>score = 100, date = 1, jumps = 9, time = 60\<rparr>,
       \<lparr>score = 90, date = 2, jumps = 8, time = 50\<rparr>,
       \<lparr>score = 85, date = 6, jumps = 3, time = 25\<rparr>,
       \<lparr>score = 80, date = 3, jumps = 7, time = 40\<rparr>,
       \<lparr>score = 70, date = 4, jumps = 6, time = 30\<rparr>], 2)"
  by (simp add: leaderboard_updater_def sample_board_def sort_by_score_def Let_def)

text \<open>Inserting 85 into \<open>[100, 90, 80, 70, 60]\<close>: 60 is dropped, the entry is third.\<close>

lemma leaderboard_updater_computes_example:
  "leaderboard_updater \<lparr>score = 85, date = 6, jumps = 3, time = 25\<rparr> sample_board =
     ([\<lparr>score = 100, date = 1, jumps = 9, time = 60\<rparr>,
       \<lparr>score = 90, date = 2, jumps = 8, time = 50\<rparr>,
       \<lparr>score = 85, date = 6, jumps = 3, time = 25\<rparr>,
       \<lparr>score = 80, date = 3, jumps = 7, time = 40\<rparr>,
       \<lparr>score = 70, date = 4, jumps = 6, time = 30\<rparr>], 2) \<and>
   map score sample_board = [100, 90, 80, 70, 60] \<and>
   length (filter (\<lambda>e. score \<lparr>score = 85, date = 6, jumps = 3, time = 25\<rparr> \<le> score e)
             sample_board) = 2 \<and>
   [\<lparr>score = 100, date = 1, jumps = 9, time = 60\<rparr>,
    \<lparr>score = 90, date = 2, jumps = 8, time = 50\<rparr>,
    \<lparr>score = 85, date = 6, jumps = 3, time = 25\<rparr>,
    \<lparr>score = 80, date = 3, jumps = 7, time = 40\<rparr>,
    \<lparr>score = 70, date = 4, jumps = 6, time = 30\<rparr>] ! nat 2 =
     \<lparr>score = 85, date = 6, jumps = 3, time = 25\<rparr>"
proof -
  have b: "map score sample_board = [100, 90, 80, 70, 60]"
    "length (filter (\<lambda>e. score \<lparr>score = 85, date = 6, jumps = 3, time = 25\<rparr> \<le> score e)
             sample_board) = 2"
    "\<forall>e \<in> set sample_board. \<not> (date e = date \<lparr>score = 85, date = 6, jumps = 3, time = 25\<rparr> \<and>
         score e = score \<lparr>score = 85, date = 6, jumps = 3, time = 25\<rparr>)"
    by (simp_all add: sample_board_def)
  have "(2::int) = - 1 \<or> [\<lparr>score = 100, date = 1, jumps = 9, time = 60\<rparr>,
    \<lparr>score = 90, date = 2, jumps = 8, time = 50\<rparr>,
    \<lparr>score = 85, date = 6, jumps = 3, time = 25\<rparr>,
    \<lparr>score = 80, date = 3, jumps = 7, time = 40\<rparr>,
    \<lparr>score = 70, date = 4, jumps = 6, time = 30\<rparr>] ! nat 2 =
     \<lparr>score = 85, date = 6, jumps = 3, time = 25\<rparr>"
    using leaderboard_updater_computes[OF sample_board_insert, where s = "mount_local empty_storage 0"
        and d = sample_digits and tr = 0 and te = 0 and tz = 0] b(3)
    by (metis zero_le_numeral)
  with sample_board_insert b(1,2) show ?thesis by simp
qed

text \<open>
  Claim C5: the new list is as the claim says (see above), but the reported rank is not
  always that of the inserted entry. The index is found by comparing date and score only.
  After a first round of score 150 has ended at 42300 ms and taken row 4 of a board of
  equal scores, a second game-over notification in the same millisecond builds an entry
  that is cut off; the claim asks for "not ranked" (\<open>-1\<close>), the code reports 4, the row
  of the first round's entry. On a one-entry list the older entry's row 0 is reported while
  the new entry stands at row 1.
\<close>

theorem highlight_points_at_older_entry:
  "leaderboard (handleGameOver_local sample_digits 42300 42300 42300 tied_start) = tied_board \<and>
   newHighlight (handleGameOver_local sample_digits 42300 42300 42300 tied_start) = 4 \<and>
   leaderboard (handleGameOver_local sample_digits 42300 42300 42300
     (handleGameOver_local sample_digits 42300 42300 42300 tied_start)) = tied_board \<and>
   newHighlight (handleGameOver_local sample_digits 42300 42300 42300
     (handleGameOver_local sample_digits 42300 42300 42300 tied_start)) = 4 \<and>
   leaderboard_updater \<lparr>score = 150, date = 42300, jumps = 0, time = 0\<rparr> tied_board =
     (tied_board, 4) \<and>
   \<lparr>score = 150, date = 42300, jumps = 0, time = 0\<rparr> \<notin> set tied_board \<and>
   tied_board ! 4 = \<lparr>score = 150, date = 42300, jumps = 0, time = 42\<rparr> \<and>
   leaderboard_updater \<lparr>score = 150, date = 42300, jumps = 0, time = 0\<rparr>
       [\<lparr>score = 150, date = 42300, jumps = 6, time = 42\<rparr>] =
     ([\<lparr>score = 150, date = 42300, jumps = 6, time = 42\<rparr>,
       \<lparr>score = 150, date = 42300, jumps = 0, time = 0\<rparr>], 0)"
  by (simp add: handleGameOver_local_def tied_start_def mount_local_def empty_storage_def
      loadStored_def engine_score_sample leaderboard_updater_def tied_board_def four_tied_def
      sort_by_score_def Math_round_def Let_def)

text \<open>
  Claim C6. After any sequence of rounds from the initial streak \<open>{0, 0, 0}\<close>,
  \<open>current \<le> best\<close>; \<open>best\<close> after a sequence is at most \<open>best\<close> after any extension of
  it; and one round never lowers \<open>best\<close>, whatever the streak before.
\<close>

theorem streak_best_bounds_current:
  "current (rounds \<lparr>current = 0, best = 0, lastScore = 0\<rparr> scs) \<le>
     best (rounds \<lparr>current = 0, best = 0, lastScore = 0\<rparr> scs) \<and>
   best (rounds \<lparr>current = 0, best = 0, lastScore = 0\<rparr> scs) \<le>
     best (rounds \<lparr>current = 0, best = 0, lastScore = 0\<rparr> (scs @ later)) \<and>
   best st \<le> best (streak_updater sc st)"
  using rounds_inv[of "\<lparr>current = 0, best = 0, lastScore = 0\<rparr>" scs]
    rounds_best_mono[of "rounds \<lparr>current = 0, best = 0, lastScore = 0\<rparr> scs" later]
    streak_updater_best_mono[of st sc]
  by (simp add: rounds_append)

text \<open>
  Claim C7. Over any stream of camera callbacks (\<open>src/App.jsx\<close>) and any sequence of events
  of the arcade revision, from any state, the jump events emitted are pairwise strictly more
  than 500 ms apart, in the order emitted, and each is strictly more than 500 ms after the
  value \<open>lastJumpTimeRef\<close> had before; from the mounted component the whole event list is
  so spaced, and \<open>lastJumpTimeRef\<close> is the time of the last event (0 before the first). A
  single callback whose clock reading is at most 500 ms after \<open>lastJumpTimeRef\<close> emits
  nothing. Hence two upward motions less than 500 ms apart yield
  at most one event.
\<close>

theorem refractory_period:
  "(\<exists>new. jumpEvents (feed_App s fs) = jumpEvents s @ new \<and>
          sorted_wrt (\<lambda>t1 t2. 500 < t2 - t1) new \<and>
          (\<forall>t \<in> set new. 500 < t - lastJumpTimeRef s)) \<and>
   (\<exists>new. jumpEvents (run a es) = jumpEvents a @ new \<and>
          sorted_wrt (\<lambda>t1 t2. 500 < t2 - t1) new \<and>
          (\<forall>t \<in> set new. 500 < t - lastJumpTimeRef a)) \<and>
   (\<exists>new. jumpEvents (feed_local u fs) = jumpEvents u @ new \<and>
          sorted_wrt (\<lambda>t1 t2. 500 < t2 - t1) new \<and>
          (\<forall>t \<in> set new. 500 < t - lastJumpTimeRef u)) \<and>
   sorted_wrt (\<lambda>t1 t2. 500 < t2 - t1) (jumpEvents (feed_App mount_App fs)) \<and>
   sorted_wrt (\<lambda>t1 t2. 500 < t2 - t1) (jumpEvents (run (mount st mt) es)) \<and>
   lastJumpTimeRef (feed_App mount_App fs) =
     (if jumpEvents (feed_App mount_App fs) = [] then 0
      else last (jumpEvents (feed_App mount_App fs))) \<and>
   lastJumpTimeRef (run (mount st mt) es) =
     (if jumpEvents (run (mount st mt) es) = [] then 0
      else last (jumpEvents (run (mount st mt) es))) \<and>
   (now - lastJumpTimeRef s \<le> 500 \<longrightarrow>
      (case onResults_App r now s of Inl e \<Rightarrow> True | Inr s' \<Rightarrow> jumpEvents s' = jumpEvents s)) \<and>
   (now - lastJumpTimeRef a \<le> 500 \<longrightarrow>
      (case onResults_arcade r now a of Inl e \<Rightarrow> True | Inr a' \<Rightarrow> jumpEvents a' = jumpEvents a))"
proof -
  have 1: "\<exists>new. jumpEvents (feed_App s fs) = jumpEvents s @ new \<and>
          sorted_wrt (\<lambda>t1 t2. 500 < t2 - t1) new \<and>
          (\<forall>t \<in> set new. 500 < t - lastJumpTimeRef s)" for s :: "'a detector_scheme"
    using feed_App_gap[of s fs] by blast
  have 2: "\<exists>new. jumpEvents (run a es) = jumpEvents a @ new \<and>
          sorted_wrt (\<lambda>t1 t2. 500 < t2 - t1) new \<and>
          (\<forall>t \<in> set new. 500 < t - lastJumpTimeRef a)" for a
    using run_gap[of a es] by blast
  have 9: "\<exists>new. jumpEvents (feed_local u fs) = jumpEvents u @ new \<and>
          sorted_wrt (\<lambda>t1 t2. 500 < t2 - t1) new \<and>
          (\<forall>t \<in> set new. 500 < t - lastJumpTimeRef u)"
    using feed_local_gap[of u fs] by blast
  have 3: "sorted_wrt (\<lambda>t1 t2. 500 < t2 - t1) (jumpEvents (feed_App mount_App fs))"
    using feed_App_gap[of mount_App fs] by (auto simp: mount_App_def)
  have 4: "sorted_wrt (\<lambda>t1 t2. 500 < t2 - t1) (jumpEvents (run (mount st mt) es))"
    using run_gap[of "mount st mt" es] by (auto simp: mount_def)
  have 7: "lastJumpTimeRef (feed_App mount_App fs) =
     (if jumpEvents (feed_App mount_App fs) = [] then 0
      else last (jumpEvents (feed_App mount_App fs)))"
    using feed_App_gap[of mount_App fs] by (auto simp: mount_App_def)
  have 8: "lastJumpTimeRef (run (mount st mt) es) =
     (if jumpEvents (run (mount st mt) es) = [] then 0
      else last (jumpEvents (run (mount st mt) es)))"
    using run_gap[of "mount st mt" es] by (auto simp: mount_def)
  have 5: "now - lastJumpTimeRef s \<le> 500 \<longrightarrow>
      (case onResults_App r now s of Inl e \<Rightarrow> True | Inr s' \<Rightarrow> jumpEvents s' = jumpEvents s)"
    by (auto simp: onResults_App_def Let_def split: option.splits)
  have 6: "now - lastJumpTimeRef a \<le> 500 \<longrightarrow>
      (case onResults_arcade r now a of Inl e \<Rightarrow> True | Inr a' \<Rightarrow> jumpEvents a' = jumpEvents a)"
    by (auto simp: onResults_arcade_def Let_def split: option.splits)
  from 1 2 3 4 5 6 7 8 9 show ?thesis by blast
qed

text \<open>
  Three upward motions at 1100, 1200 and 1700 ms: the second is swallowed. In the sample
  round, whose last jump was at 2000 ms, a motion at 2100 ms is swallowed and one at
  2501 ms emits.
\<close>

theorem refractory_period_witness:
  "jumpEvents (feed_App mount_App
     [(frame (Dyadic 1 (- 1)), 1000), (frame (Dyadic 3 (- 3)), 1100), (frame (Dyadic 1 (- 2)), 1200),
      (frame (Dyadic 1 (- 3)), 1700)]) = [1100, 1700] \<and>
   sorted_wrt (\<lambda>t1 t2. 500 < t2 - t1) [1100, 1700 :: int] \<and>
   jumpEvents (run sample_round
     [PoseResults (frame (Dyadic 1 (- 2))) 2100, PoseResults (frame (Dyadic 1 (- 3))) 2501]) = [2000, 2501]"
proof -
  have 1: "jumpEvents (feed_App mount_App
     [(frame (Dyadic 1 (- 1)), 1000), (frame (Dyadic 3 (- 3)), 1100), (frame (Dyadic 1 (- 2)), 1200),
      (frame (Dyadic 1 (- 3)), 1700)]) = [1100, 1700]"
    by (simp add: mount_App_def onResults_App_def frame_landmarks avg_samples diff_samples
        Let_def)
  have 2: "jumpEvents (run sample_round
     [PoseResults (frame (Dyadic 1 (- 2))) 2100, PoseResults (frame (Dyadic 1 (- 3))) 2501]) = [2000, 2501]"
    by (simp add: run_def sample_round_eq onResults_arcade_def frame_landmarks avg_samples
        diff_samples Let_def)
  have "sorted_wrt (\<lambda>t1 t2. 500 < t2 - t1) (jumpEvents (feed_App mount_App
     [(frame (Dyadic 1 (- 1)), 1000), (frame (Dyadic 3 (- 3)), 1100), (frame (Dyadic 1 (- 2)), 1200),
      (frame (Dyadic 1 (- 3)), 1700)]))"
    using refractory_period[where s = mount_App and a = sample_round and u = sample_round
        and st = empty_storage
        and mt = 0 and now = 1200 and r = "frame (Dyadic 1 (- 2))"
        and fs = "[(frame (Dyadic 1 (- 1)), 1000), (frame (Dyadic 3 (- 3)), 1100), (frame (Dyadic 1 (- 2)), 1200),
                   (frame (Dyadic 1 (- 3)), 1700)]"
        and es = "[PoseResults (frame (Dyadic 1 (- 2))) 2100, PoseResults (frame (Dyadic 1 (- 3))) 2501]"]
    by blast
  then have 3: "sorted_wrt (\<lambda>t1 t2. 500 < t2 - t1) [1100, 1700 :: int]"
    by (simp only: 1)
  from 1 2 3 show ?thesis by blast
qed

text \<open>
  Claim C8, as the code has it. When no previous sample is stored (as after mounting), a
  frame with both shoulder landmarks only stores the current height: no event, no other
  change. A frame without landmarks (pose lost) changes nothing at all; in particular the
  stored height is kept, not reset.
\<close>

theorem first_sample_only_seeds:
  "(poseLandmarks r = Some lms \<and> 12 < length lms \<and> prevShoulderRef s = None \<longrightarrow>
      onResults_App r now s = Inr (s\<lparr>prevShoulderRef := Some (avgShoulderY lms)\<rparr>)) \<and>
   (poseLandmarks r = Some lms \<and> 12 < length lms \<and> prevShoulderRef a = None \<longrightarrow>
      onResults_arcade r now a = Inr (a\<lparr>prevShoulderRef := Some (avgShoulderY lms)\<rparr>)) \<and>
   (poseLandmarks r = Some lms \<and> 12 < length lms \<and> prevShoulderRef u = None \<longrightarrow>
      onResults_local r now u = Inr (u\<lparr>prevShoulderRef := Some (avgShoulderY lms)\<rparr>)) \<and>
   prevShoulderRef mount_App = None \<and>
   prevShoulderRef (mount st mt) = None \<and>
   prevShoulderRef (mount_local lst mt) = None \<and>
   (poseLandmarks r = None \<longrightarrow>
      onResults_App r now s = Inr s \<and> onResults_arcade r now a = Inr a \<and>
      onResults_local r now u = Inr u)"
  by (simp add: onResults_App_first onResults_arcade_first onResults_local_first
      onResults_App_lost onResults_arcade_lost onResults_local_lost
      mount_App_def mount_def mount_local_def)

text \<open>The first frame after mounting, and a lost pose during the sample round.\<close>

theorem first_sample_only_seeds_witness:
  "poseLandmarks (frame (Dyadic 1 (- 1))) = Some (replicate 33 \<lparr>lm_x = Dyadic 1 (- 1), lm_y = Dyadic 1 (- 1)\<rparr>) \<and>
   12 < length (replicate 33 \<lparr>lm_x = Dyadic 1 (- 1), lm_y = Dyadic 1 (- 1)\<rparr>) \<and>
   prevShoulderRef mount_App = None \<and>
   prevShoulderRef (mount empty_storage 0) = None \<and>
   poseLandmarks lost = None \<and>
   onResults_App (frame (Dyadic 1 (- 1))) 1000 mount_App =
     Inr \<lparr>prevShoulderRef = Some (Dyadic 2 (- 2)), lastJumpTimeRef = 0, jumpEvents = []\<rparr> \<and>
   onResults_arcade (frame (Dyadic 1 (- 1))) 1000 (mount empty_storage 0) =
     Inr ((mount empty_storage 0)\<lparr>prevShoulderRef := Some (Dyadic 2 (- 2))\<rparr>) \<and>
   onResults_App lost 1033 sample_round = Inr sample_round \<and>
   onResults_arcade lost 1033 sample_round = Inr sample_round"
proof -
  have l: "poseLandmarks (frame (Dyadic 1 (- 1))) = Some (replicate 33 \<lparr>lm_x = Dyadic 1 (- 1), lm_y = Dyadic 1 (- 1)\<rparr>)"
    by (rule frame_landmarks)
  have n: "poseLandmarks lost = None" by (simp add: lost_def)
  show ?thesis
    using first_sample_only_seeds[where r = "frame (Dyadic 1 (- 1))"
        and lms = "replicate 33 \<lparr>lm_x = Dyadic 1 (- 1), lm_y = Dyadic 1 (- 1)\<rparr>"
        and s = mount_App and a = "mount empty_storage 0" and now = 1000
        and st = empty_storage and mt = 0 and lst = empty_storage
        and u = "mount_local empty_storage 0"]
      first_sample_only_seeds[where r = lost and lms = "[]"
        and s = sample_round and a = sample_round and now = 1033
        and st = empty_storage and mt = 0 and lst = empty_storage
        and u = "mount_local empty_storage 0"]
    by (simp add: l n avg_samples) (simp add: mount_App_def)
qed

text \<open>
  Claim C8 as stated fails in its second half: the first sample after a pose loss is
  compared with the last sample before the loss and emits a jump (\<open>src/App.jsx\<close> at
  1066 ms, the arcade revision at 2633 ms).
\<close>

theorem first_sample_after_loss_jumps:
  "jumpEvents (feed_App mount_App [(frame (Dyadic 1 (- 1)), 1000)]) = [] \<and>
   jumpEvents (feed_App mount_App [(frame (Dyadic 1 (- 1)), 1000), (lost, 1033)]) = [] \<and>
   prevShoulderRef (feed_App mount_App [(frame (Dyadic 1 (- 1)), 1000), (lost, 1033)]) = Some (Dyadic 2 (- 2)) \<and>
   jumpEvents (feed_App mount_App [(frame (Dyadic 1 (- 1)), 1000), (lost, 1033), (frame (Dyadic 3 (- 3)), 1066)]) =
     [1066] \<and>
   jumpEvents (run sample_round [PoseResults lost 2600, PoseResults (frame (Dyadic 1 (- 2))) 2633]) =
     [2000, 2633]"
  by (simp add: mount_App_def onResults_App_def frame_landmarks avg_samples diff_samples
      lost_def Let_def run_def sample_round_eq onResults_arcade_def)

text \<open>
  Claim C9. In any reachable state of the arcade revision with an active round, when reading
  the engine's digits throws or \<open>parseInt\<close> yields \<open>NaN\<close>, the handler completes with
  score 0: the state machine goes from \<open>PLAYING\<close> to \<open>GAME_OVER\<close>, the statistics count one
  more round with the score sum unchanged, the streak is updated with score 0, one record
  with score 0 is pushed to the leaderboard, and a further notification changes nothing.
\<close>

theorem unparsable_score_counts_as_zero:
  assumes "s = run (mount st mt) es" and "isGameActiveRef s"
    and "digits = None \<or> (\<exists>ds. digits = Some ds \<and> parseInt (concat ds) = None)"
    and "s' = handleGameOver_arcade digits tr tp s"
  shows "gameState s = PLAYING \<and> gameState s' = GAME_OVER \<and> \<not> isGameActiveRef s' \<and>
         lastGameScore s' = Some 0 \<and>
         sessionStats s' =
           \<lparr>totalJumps = totalJumps (sessionStats s) + jumpCountRef s,
            totalPlayTime = totalPlayTime (sessionStats s) + real_of_int (tr - roundStartRef s) / 1000,
            totalScore = totalScore (sessionStats s),
            roundsPlayed = roundsPlayed (sessionStats s) + 1\<rparr> \<and>
         streak s' = streak_updater 0 (streak s) \<and>
         firebase s' = firebase s @
           [\<lparr>fb_name = playerNameRef s, fb_score = 0, fb_timestamp = tp,
             fb_jumps = jumpCountRef s,
             fb_time = Math_round (real_of_int (tr - roundStartRef s) / 1000),
             fb_gameMode = ''arcade''\<rparr>] \<and>
         handleGameOver_arcade digits' tr' tp' s' = s'"
proof -
  have z: "engine_score digits = 0" using assms(3) by (rule engine_score_unparsable)
  have "round_inv s" unfolding assms(1) by (rule round_inv_reachable)
  with assms(2) have p: "gameState s = PLAYING" "playerNameRef s \<noteq> []"
    by (auto simp: round_inv_def)
  have tw: "handleGameOver_arcade digits' tr' tp' s' = s'"
    unfolding assms(4) by (rule handleGameOver_arcade_twice)
  show ?thesis
    using p tw unfolding assms(4)
    by (simp add: handleGameOver_arcade_active[OF assms(2)] z sessionStats_updater_def)
qed

text \<open>The sample round ended while the engine shows no digits, or cannot be read.\<close>

theorem unparsable_score_counts_as_zero_witness:
  "isGameActiveRef sample_round \<and>
   parseInt (concat [''G'', ''A'', ''M'', ''E'']) = None \<and>
   gameState (handleGameOver_arcade (Some [''G'', ''A'', ''M'', ''E'']) 42800 42801 sample_round) =
     GAME_OVER \<and>
   sessionStats (handleGameOver_arcade (Some [''G'', ''A'', ''M'', ''E'']) 42800 42801 sample_round) =
     \<lparr>totalJumps = 1, totalPlayTime = 423 / 10, totalScore = 0, roundsPlayed = 1\<rparr> \<and>
   streak (handleGameOver_arcade (Some [''G'', ''A'', ''M'', ''E'']) 42800 42801 sample_round) =
     \<lparr>current = 1, best = 1, lastScore = 0\<rparr> \<and>
   firebase (handleGameOver_arcade (Some [''G'', ''A'', ''M'', ''E'']) 42800 42801 sample_round) =
     [\<lparr>fb_name = ''BOB'', fb_score = 0, fb_timestamp = 42801, fb_jumps = 1, fb_time = 42,
       fb_gameMode = ''arcade''\<rparr>] \<and>
   gameState (handleGameOver_arcade None 42800 42801 sample_round) = GAME_OVER \<and>
   lastGameScore (handleGameOver_arcade None 42800 42801 sample_round) = Some 0"
proof -
  have f: "isGameActiveRef sample_round" "jumpCountRef sample_round = 1"
    "roundStartRef sample_round = 500" "playerNameRef sample_round = ''BOB''"
    "firebase sample_round = []"
    "sessionStats sample_round =
       \<lparr>totalJumps = 0, totalPlayTime = 0, totalScore = 0, roundsPlayed = 0\<rparr>"
    "streak sample_round = \<lparr>current = 0, best = 0, lastScore = 0\<rparr>"
    by (simp_all add: sample_round_eq)
  have g: "parseInt (concat [''G'', ''A'', ''M'', ''E'']) = None" "parseInt ''GAME'' = None"
    by (simp_all add: parseInt_def isWhiteSpace_def isDigit_def)
  then have u: "Some [''G'', ''A'', ''M'', ''E''] = None \<or>
      (\<exists>ds. Some [''G'', ''A'', ''M'', ''E''] = Some ds \<and> parseInt (concat ds) = None)"
    by blast
  have v: "(None :: string list option) = None \<or>
      (\<exists>ds. None = Some ds \<and> parseInt (concat ds) = None)" by blast
  show ?thesis
    using unparsable_score_counts_as_zero[OF sample_round_def f(1) u refl,
        where tr = 42800 and tp = 42801 and digits' = None and tr' = 0 and tp' = 0]
      unparsable_score_counts_as_zero[OF sample_round_def f(1) v refl,
        where tr = 42800 and tp = 42801 and digits' = None and tr' = 0 and tp' = 0]
    by (auto simp: f g streak_updater_def Math_round_def)
qed

text \<open>
  Claim C10. \<open>resetStats\<close> zeroes the four statistics and the streak, in the state and in
  \<open>localStorage\<close>, and changes nothing else: not the leaderboard (state or stored), not
  the stored player name, and in the arcade revision not the player name or the pushed
  records.
\<close>

theorem resetStats_frame:
  "sessionStats (resetStats s) =
     \<lparr>totalJumps = 0, totalPlayTime = 0, totalScore = 0, roundsPlayed = 0\<rparr> \<and>
   streak (resetStats s) = \<lparr>current = 0, best = 0, lastScore = 0\<rparr> \<and>
   dino_session_stats (localStorage (resetStats s)) =
     Some \<lparr>totalJumps = 0, totalPlayTime = 0, totalScore = 0, roundsPlayed = 0\<rparr> \<and>
   dino_streak (localStorage (resetStats s)) = Some \<lparr>current = 0, best = 0, lastScore = 0\<rparr> \<and>
   leaderboard (resetStats s) = leaderboard s \<and>
   dino_leaderboard (localStorage (resetStats s)) = dino_leaderboard (localStorage s) \<and>
   dino_player_name (localStorage (resetStats s)) = dino_player_name (localStorage s) \<and>
   playerName (resetStats a) = playerName a \<and>
   playerNameRef (resetStats a) = playerNameRef a \<and>
   firebase (resetStats a) = firebase a \<and>
   resetStats s =
     s\<lparr>sessionStats := \<lparr>totalJumps = 0, totalPlayTime = 0, totalScore = 0, roundsPlayed = 0\<rparr>,
       streak := \<lparr>current = 0, best = 0, lastScore = 0\<rparr>,
       localStorage := (localStorage s)
         \<lparr>dino_session_stats :=
            Some \<lparr>totalJumps = 0, totalPlayTime = 0, totalScore = 0, roundsPlayed = 0\<rparr>,
          dino_streak := Some \<lparr>current = 0, best = 0, lastScore = 0\<rparr>\<rparr>\<rparr>"
  by (simp add: resetStats_def Let_def)

end
